theory Spec2Isabelle
  imports Main "HOL-Library.Extended_Nat" "HOL-Library.Sublist" "HOL-Library.AList"
    "HOL-Library.Multiset"
begin

unbundle bit_operations_syntax

section \<open>Python values used by \<^verbatim>\<open>s_rerun_imp2.py\<close>\<close>

text \<open>
  A Python \<^verbatim>\<open>str\<close> is modelled as a \<^typ>\<open>string\<close>: a list of characters, each a
  code point below 256. Text read from a file is the text as Python hands it to the
  program, that is after decoding with \<^verbatim>\<open>errors="ignore"\<close>.
\<close>

abbreviation LF :: char where "LF \<equiv> CHR 0x0A"
abbreviation CR :: char where "CR \<equiv> CHR 0x0D"
abbreviation SQ :: char where "SQ \<equiv> CHR 0x27"

text \<open>The exceptions that can travel through the program.\<close>

datatype error =
    FileNotFoundError string
  | FileExistsError
  | NotADirectoryError
  | IsADirectoryError
  | SameFileError
  | ValueError
  | OtherError

text \<open>\<^verbatim>\<open>s.startswith(p)\<close>.\<close>

fun startswith :: "string \<Rightarrow> string \<Rightarrow> bool" where
  "startswith s [] = True"
| "startswith [] (p # ps) = False"
| "startswith (c # cs) (p # ps) = (c = p \<and> startswith cs ps)"

text \<open>\<^verbatim>\<open>needle in hay\<close> on strings: \<open>needle\<close> occurs in \<open>hay\<close> as a contiguous run.\<close>

fun py_in :: "string \<Rightarrow> string \<Rightarrow> bool" where
  "py_in needle [] = (needle = [])"
| "py_in needle (c # cs) = (startswith (c # cs) needle \<or> py_in needle cs)"

text \<open>\<^verbatim>\<open>s.split(sep)\<close> for a separator of one character; the result is never empty.\<close>

fun split_on :: "char \<Rightarrow> string \<Rightarrow> string list" where
  "split_on sep [] = [[]]"
| "split_on sep (c # cs) =
     (if c = sep then [] # split_on sep cs
      else (case split_on sep cs of
              [] \<Rightarrow> [[c]]
            | w # ws \<Rightarrow> (c # w) # ws))"

text \<open>\<^verbatim>\<open>sep.join(parts)\<close>.\<close>

fun py_join :: "string \<Rightarrow> string list \<Rightarrow> string" where
  "py_join sep [] = []"
| "py_join sep [x] = x"
| "py_join sep (x # y # ys) = x @ sep @ py_join sep (y # ys)"

text \<open>
  \<^verbatim>\<open>str.isdigit()\<close>: at least one character, and every character a digit. Below code
  point 256 the digits are \<^verbatim>\<open>0\<close> to \<^verbatim>\<open>9\<close> and the superscripts two, three and
  one (code points 178, 179 and 185).
\<close>

definition is_ascii_digit :: "char \<Rightarrow> bool" where
  "is_ascii_digit c = (48 \<le> (of_char c :: nat) \<and> (of_char c :: nat) \<le> 57)"

definition is_superscript_digit :: "char \<Rightarrow> bool" where
  "is_superscript_digit c =
     ((of_char c :: nat) = 178 \<or> (of_char c :: nat) = 179 \<or> (of_char c :: nat) = 185)"

definition py_isdigit :: "string \<Rightarrow> bool" where
  "py_isdigit s = (s \<noteq> [] \<and> list_all (\<lambda>c. is_ascii_digit c \<or> is_superscript_digit c) s)"

text \<open>
  \<^verbatim>\<open>int(s)\<close> on a string that passed \<^verbatim>\<open>isdigit()\<close>: the decimal value when every
  character is an ASCII digit, and \<^verbatim>\<open>ValueError\<close> on a superscript digit.
\<close>

definition digits_value :: "string \<Rightarrow> nat" where
  "digits_value s = fold (\<lambda>c n. 10 * n + ((of_char c :: nat) - 48)) s 0"

definition int_of_digits :: "string \<Rightarrow> error + nat" where
  "int_of_digits s =
     (if s \<noteq> [] \<and> list_all is_ascii_digit s then Inr (digits_value s) else Inl ValueError)"

text \<open>\<^verbatim>\<open>str(n)\<close> for an integer, as the f-strings render \<^verbatim>\<open>run_index\<close> and a return code.\<close>

function str_nat :: "nat \<Rightarrow> string" where
  "str_nat n = (if n < 10 then [char_of (48 + n)] else str_nat (n div 10) @ [char_of (48 + n mod 10)])"
  by pat_completeness auto
termination
  by (relation "measure (\<lambda>n. n)") auto

definition str_int :: "int \<Rightarrow> string" where
  "str_int i = (if i < 0 then CHR ''-'' # str_nat (nat (- i)) else str_nat (nat i))"

text \<open>\<^verbatim>\<open>s.strip()\<close>: the white space below code point 256 is removed at both ends.\<close>

definition py_isspace :: "char \<Rightarrow> bool" where
  "py_isspace c =
     (let n = (of_char c :: nat)
      in (9 \<le> n \<and> n \<le> 13) \<or> (28 \<le> n \<and> n \<le> 32) \<or> n = 133 \<or> n = 160)"

definition py_strip :: "string \<Rightarrow> string" where
  "py_strip s = rev (dropWhile py_isspace (rev (dropWhile py_isspace s)))"

text \<open>
  Iterating over a file opened in text mode yields its lines. Universal newlines are
  on: \<^verbatim>\<open>\n\<close>, \<^verbatim>\<open>\r\<close> and \<^verbatim>\<open>\r\n\<close> each end a line and are handed over as
  \<^verbatim>\<open>\n\<close>. The flag says that the previous character was a \<^verbatim>\<open>\r\<close>.
\<close>

fun read_lines :: "bool \<Rightarrow> string \<Rightarrow> string \<Rightarrow> string list" where
  "read_lines after_cr acc [] = (if acc = [] then [] else [acc])"
| "read_lines after_cr acc (c # cs) =
     (if c = LF then
        (if after_cr then read_lines False acc cs
         else (acc @ [LF]) # read_lines False [] cs)
      else if c = CR then (acc @ [LF]) # read_lines True [] cs
      else read_lines False (acc @ [c]) cs)"

definition py_lines :: "string \<Rightarrow> string list" where
  "py_lines text = read_lines False [] text"

text \<open>
  \<^verbatim>\<open>sorted(xs, key=key)\<close>: the keys are computed first, in order, and the first key
  that raises ends the call; the sort is stable.
\<close>

fun keys_of :: "('a \<Rightarrow> error + 'k) \<Rightarrow> 'a list \<Rightarrow> error + 'k list" where
  "keys_of key [] = Inr []"
| "keys_of key (x # xs) =
     (case key x of
        Inl e \<Rightarrow> Inl e
      | Inr k \<Rightarrow> (case keys_of key xs of Inl e \<Rightarrow> Inl e | Inr ks \<Rightarrow> Inr (k # ks)))"

definition py_sorted :: "('a \<Rightarrow> error + ('k::linorder)) \<Rightarrow> 'a list \<Rightarrow> error + 'a list" where
  "py_sorted key xs =
     (case keys_of key xs of
        Inl e \<Rightarrow> Inl e
      | Inr ks \<Rightarrow> Inr (map snd (sort_key fst (zip ks xs))))"

section \<open>Paths (\<^verbatim>\<open>posixpath\<close>)\<close>

text \<open>
  The process environment: the current working directory (its components, so that
  \<^verbatim>\<open>os.getcwd()\<close> is always absolute), the directory of the script itself
  (\<^verbatim>\<open>os.path.dirname(os.path.abspath(__file__))\<close>) and the permission bits a newly
  created file gets.
\<close>

record env =
  cwd_parts :: "string list"
  script_dir :: string
  create_mode :: nat

definition os_getcwd :: "env \<Rightarrow> string" where
  "os_getcwd e = (if cwd_parts e = [] then ''/'' else concat (map (\<lambda>c. CHR ''/'' # c) (cwd_parts e)))"

definition os_path_isabs :: "string \<Rightarrow> bool" where
  "os_path_isabs p = startswith p ''/''"

definition os_path_join :: "string \<Rightarrow> string \<Rightarrow> string" where
  "os_path_join a b =
     (if startswith b ''/'' then b
      else if a = [] \<or> last a = CHR ''/'' then a @ b
      else a @ ''/'' @ b)"

definition os_path_basename :: "string \<Rightarrow> string" where
  "os_path_basename p = rev (takeWhile (\<lambda>c. c \<noteq> CHR ''/'') (rev p))"

text \<open>One round of the loop of \<^verbatim>\<open>normpath\<close> over the components.\<close>

definition norm_step :: "bool \<Rightarrow> string \<Rightarrow> string list \<Rightarrow> string list" where
  "norm_step initial_slashes part new_comps =
     (if part = [] \<or> part = ''.'' then new_comps
      else if part \<noteq> ''..'' \<or> (\<not> initial_slashes \<and> new_comps = [])
                \<or> (new_comps \<noteq> [] \<and> last new_comps = ''..'')
           then new_comps @ [part]
      else if new_comps \<noteq> [] then butlast new_comps
      else new_comps)"

definition os_path_normpath :: "string \<Rightarrow> string" where
  "os_path_normpath path =
     (if path = [] then ''.''
      else
        let initial_slashes =
              (if startswith path ''/'' then
                 (if startswith path ''//'' \<and> \<not> startswith path ''///'' then (2::nat) else 1)
               else 0);
            comps = fold (norm_step (initial_slashes \<noteq> 0)) (split_on CHR ''/'' path) [];
            joined = py_join ''/'' comps;
            res = (if initial_slashes \<noteq> 0 then replicate initial_slashes CHR ''/'' @ joined else joined)
        in if res = [] then ''.'' else res)"

definition os_path_abspath :: "env \<Rightarrow> string \<Rightarrow> string" where
  "os_path_abspath e path =
     os_path_normpath (if os_path_isabs path then path else os_path_join (os_getcwd e) path)"

section \<open>The file system\<close>

text \<open>
  A file system without symbolic links: every file and directory is stored under the
  list of components of its absolute, normalised path, in listing order. A file has
  its text and its permission bits. The root is the empty list and always a directory.
\<close>

datatype node = File string nat | Dir

type_synonym filesystem = "(string list \<times> node) list"

definition path_key :: "env \<Rightarrow> string \<Rightarrow> string list" where
  "path_key e p = filter (\<lambda>c. c \<noteq> []) (split_on CHR ''/'' (os_path_abspath e p))"

definition fs_lookup :: "filesystem \<Rightarrow> string list \<Rightarrow> node option" where
  "fs_lookup f k = (if k = [] then Some Dir else map_of f k)"

text \<open>
  \<^verbatim>\<open>os.stat\<close>: the empty path names nothing. A path is looked up under its
  normalised form, so \<^verbatim>\<open>..\<close> after a missing component and a slash after a file
  name are cancelled here where the system would refuse them; the paths the program
  builds from a listing and plain names have neither.
\<close>

definition os_stat :: "env \<Rightarrow> filesystem \<Rightarrow> string \<Rightarrow> node option" where
  "os_stat e f p = (if p = [] then None else fs_lookup f (path_key e p))"

definition os_path_exists :: "env \<Rightarrow> filesystem \<Rightarrow> string \<Rightarrow> bool" where
  "os_path_exists e f p = (os_stat e f p \<noteq> None)"

definition os_path_isdir :: "env \<Rightarrow> filesystem \<Rightarrow> string \<Rightarrow> bool" where
  "os_path_isdir e f p = (os_stat e f p = Some Dir)"

definition os_path_isfile :: "env \<Rightarrow> filesystem \<Rightarrow> string \<Rightarrow> bool" where
  "os_path_isfile e f p = (case os_stat e f p of Some (File c m) \<Rightarrow> True | _ \<Rightarrow> False)"

definition no_such :: "string \<Rightarrow> error" where
  "no_such p = FileNotFoundError (''[Errno 2] No such file or directory: '' @ [SQ] @ p @ [SQ])"

definition children :: "filesystem \<Rightarrow> string list \<Rightarrow> string list" where
  "children f d = [last k. k \<leftarrow> remdups (map fst f), k \<noteq> [] \<and> butlast k = d]"

definition os_listdir :: "env \<Rightarrow> filesystem \<Rightarrow> string \<Rightarrow> error + string list" where
  "os_listdir e f p =
     (case os_stat e f p of
        None \<Rightarrow> Inl (no_such p)
      | Some (File c m) \<Rightarrow> Inl NotADirectoryError
      | Some Dir \<Rightarrow> Inr (children f (path_key e p)))"

text \<open>
  \<^verbatim>\<open>open(p, "r", errors="ignore")\<close> and reading it to the end: the text of a file,
  an error for a directory or a missing path. The process is taken to have the right
  to read every file: the permission bits are not consulted.
\<close>

definition open_read :: "env \<Rightarrow> filesystem \<Rightarrow> string \<Rightarrow> error + string" where
  "open_read e f p =
     (case os_stat e f p of
        None \<Rightarrow> Inl (no_such p)
      | Some Dir \<Rightarrow> Inl IsADirectoryError
      | Some (File c m) \<Rightarrow> Inr c)"

text \<open>
  \<^verbatim>\<open>os.makedirs(p, exist_ok=True)\<close>: walks down from the root and creates what is
  missing; a file in the way is an error.
\<close>

fun mkdirs_from :: "filesystem \<Rightarrow> string list \<Rightarrow> string list \<Rightarrow> error + filesystem" where
  "mkdirs_from f pre [] = Inr f"
| "mkdirs_from f pre (c # cs) =
     (case fs_lookup f (pre @ [c]) of
        Some Dir \<Rightarrow> mkdirs_from f (pre @ [c]) cs
      | Some (File t m) \<Rightarrow> Inl (if cs = [] then FileExistsError else NotADirectoryError)
      | None \<Rightarrow> mkdirs_from (AList.update (pre @ [c]) Dir f) (pre @ [c]) cs)"

definition fs_makedirs :: "env \<Rightarrow> filesystem \<Rightarrow> string \<Rightarrow> error + filesystem" where
  "fs_makedirs e f p = (if p = [] then Inl (no_such p) else mkdirs_from f [] (path_key e p))"

text \<open>
  \<^verbatim>\<open>open(p, "w")\<close>, \<^verbatim>\<open>write(text)\<close> and close: an existing file keeps its
  permission bits, a new one needs its directory.
\<close>

definition fs_write :: "env \<Rightarrow> filesystem \<Rightarrow> string \<Rightarrow> string \<Rightarrow> error + filesystem" where
  "fs_write e f p text =
     (if p = [] then Inl (no_such p)
      else
        let k = path_key e p in
        (case fs_lookup f k of
           Some Dir \<Rightarrow> Inl IsADirectoryError
         | Some (File c m) \<Rightarrow> Inr (AList.update k (File text m) f)
         | None \<Rightarrow>
             (case fs_lookup f (butlast k) of
                Some Dir \<Rightarrow> Inr (AList.update k (File text (create_mode e)) f)
              | Some (File c m) \<Rightarrow> Inl NotADirectoryError
              | None \<Rightarrow> Inl (no_such p))))"

text \<open>
  \<^verbatim>\<open>shutil.copy2(src, dst)\<close>: into \<open>dst\<close> when that is a directory, refusing to copy
  a file onto itself; the permission bits travel with the text.
\<close>

definition fs_copy2 :: "env \<Rightarrow> filesystem \<Rightarrow> string \<Rightarrow> string \<Rightarrow> error + filesystem" where
  "fs_copy2 e f src dst =
     (let dst' = (if os_path_isdir e f dst then os_path_join dst (os_path_basename src) else dst) in
      if os_path_exists e f src \<and> os_path_exists e f dst' \<and> path_key e src = path_key e dst'
      then Inl SameFileError
      else
        (case os_stat e f src of
           None \<Rightarrow> Inl (no_such src)
         | Some Dir \<Rightarrow> Inl IsADirectoryError
         | Some (File c m) \<Rightarrow>
             (case fs_write e f dst' c of
                Inl err \<Rightarrow> Inl err
              | Inr f' \<Rightarrow> Inr (AList.update (path_key e dst') (File c m) f'))))"

text \<open>
  \<^verbatim>\<open>shutil.copytree(src, dst)\<close>: \<open>dst\<close> must not exist; it is created with its
  missing parents and receives everything that was below \<open>src\<close> when the call
  started. A \<open>dst\<close> two or more levels inside \<open>src\<close> makes the copy descend into its
  own output until the system refuses.
\<close>

definition fs_copytree :: "env \<Rightarrow> filesystem \<Rightarrow> string \<Rightarrow> string \<Rightarrow> error + filesystem" where
  "fs_copytree e f src dst =
     (case os_stat e f src of
        None \<Rightarrow> Inl (no_such src)
      | Some (File c m) \<Rightarrow> Inl NotADirectoryError
      | Some Dir \<Rightarrow>
          if os_path_exists e f dst then Inl FileExistsError
          else
            let ks = path_key e src; kd = path_key e dst in
            if strict_prefix ks (butlast kd) then Inl OtherError
            else
              (case fs_makedirs e f dst of
                 Inl err \<Rightarrow> Inl err
               | Inr f1 \<Rightarrow>
                   Inr (fold (\<lambda>(k, n) g. AList.update (kd @ drop (length ks) k) n g)
                          (filter (\<lambda>(k, n). strict_prefix ks k) f) f1)))"

text \<open>
  \<^verbatim>\<open>os.chmod(p, os.stat(p).st_mode | 0o111)\<close> inside \<^verbatim>\<open>try ... except Exception: pass\<close>.
  Only files carry permission bits here.
\<close>

definition fs_chmod_exec :: "env \<Rightarrow> filesystem \<Rightarrow> string \<Rightarrow> filesystem" where
  "fs_chmod_exec e f p =
     (case os_stat e f p of
        Some (File c m) \<Rightarrow> AList.update (path_key e p) (File c (m OR 73)) f
      | _ \<Rightarrow> f)"

section \<open>The world: file system and trace of effects\<close>

datatype event =
    Print string
  | Makedirs string
  | WriteFile string string
  | Copy2 string string
  | CopyTree string string
  | Chmod string
  | Sbatch string

record world =
  files :: filesystem
  trace :: "event list"

definition emit :: "event \<Rightarrow> world \<Rightarrow> world" where
  "emit ev w = w\<lparr>trace := trace w @ [ev]\<rparr>"

definition py_print :: "string \<Rightarrow> world \<Rightarrow> world" where
  "py_print s w = emit (Print s) w"

definition os_makedirs :: "env \<Rightarrow> string \<Rightarrow> world \<Rightarrow> error + world" where
  "os_makedirs e p w =
     (case fs_makedirs e (files w) p of
        Inl err \<Rightarrow> Inl err
      | Inr f \<Rightarrow> Inr (emit (Makedirs p) (w\<lparr>files := f\<rparr>)))"

definition write_text :: "env \<Rightarrow> string \<Rightarrow> string \<Rightarrow> world \<Rightarrow> error + world" where
  "write_text e p text w =
     (case fs_write e (files w) p text of
        Inl err \<Rightarrow> Inl err
      | Inr f \<Rightarrow> Inr (emit (WriteFile p text) (w\<lparr>files := f\<rparr>)))"

definition shutil_copy2 :: "env \<Rightarrow> string \<Rightarrow> string \<Rightarrow> world \<Rightarrow> error + world" where
  "shutil_copy2 e src dst w =
     (case fs_copy2 e (files w) src dst of
        Inl err \<Rightarrow> Inl err
      | Inr f \<Rightarrow> Inr (emit (Copy2 src dst) (w\<lparr>files := f\<rparr>)))"

definition shutil_copytree :: "env \<Rightarrow> string \<Rightarrow> string \<Rightarrow> world \<Rightarrow> error + world" where
  "shutil_copytree e src dst w =
     (case fs_copytree e (files w) src dst of
        Inl err \<Rightarrow> Inl err
      | Inr f \<Rightarrow> Inr (emit (CopyTree src dst) (w\<lparr>files := f\<rparr>)))"

definition chmod_exec :: "env \<Rightarrow> string \<Rightarrow> world \<Rightarrow> world" where
  "chmod_exec e p w =
     (if os_path_exists e (files w) p
      then emit (Chmod p) (w\<lparr>files := fs_chmod_exec e (files w) p\<rparr>)
      else w)"

text \<open>
  The scheduler is outside the program: \<^verbatim>\<open>subprocess.run(["sbatch", ...], cwd=d)\<close>
  either completes with a return code and two output streams, or raises. What it does
  may depend on everything that happened before. It leaves the file system alone.
\<close>

datatype sbatch_result = Completed int string string | Raised error

type_synonym scheduler = "world \<Rightarrow> string \<Rightarrow> sbatch_result"

section \<open>\<^verbatim>\<open>s_rerun_imp2.py\<close>\<close>

definition CONVERGENCE_MARKER :: string where
  "CONVERGENCE_MARKER = ''reached required accuracy - stopping structural energy minimisation''"

subsection \<open>\<^verbatim>\<open>find_helper_file\<close>\<close>

definition find_helper_file :: "env \<Rightarrow> filesystem \<Rightarrow> string \<Rightarrow> string option \<Rightarrow> error + string" where
  "find_helper_file e f filename helpers_dir =
     (let helpers_hit =
            (case helpers_dir of
               None \<Rightarrow> None
             | Some h \<Rightarrow>
                 if h \<noteq> [] then
                   (let helpers_candidate = os_path_abspath e (os_path_join h filename)
                    in if os_path_isfile e f helpers_candidate then Some helpers_candidate else None)
                 else None)
      in case helpers_hit of
           Some p \<Rightarrow> Inr p
         | None \<Rightarrow>
             (let cwd_candidate = os_path_abspath e (os_path_join (os_getcwd e) filename) in
              if os_path_isfile e f cwd_candidate then Inr cwd_candidate
              else
                let script_candidate = os_path_join (script_dir e) filename in
                if os_path_isfile e f script_candidate then Inr script_candidate
                else Inl (FileNotFoundError (''Could not find required file: '' @ filename))))"

subsection \<open>\<^verbatim>\<open>is_converged\<close>\<close>

text \<open>The loop over the lines, returning at the first line that holds the marker.\<close>

fun scan_lines :: "string list \<Rightarrow> bool" where
  "scan_lines [] = False"
| "scan_lines (line # rest) = (if py_in CONVERGENCE_MARKER line then True else scan_lines rest)"

text \<open>
  The body of \<^verbatim>\<open>is_converged\<close> on what opening and reading the file gave: any
  exception is caught and answered with \<^verbatim>\<open>False\<close>.
\<close>

definition is_converged_on :: "error + string \<Rightarrow> bool" where
  "is_converged_on r = (case r of Inl err \<Rightarrow> False | Inr text \<Rightarrow> scan_lines (py_lines text))"

definition is_converged :: "env \<Rightarrow> filesystem \<Rightarrow> string \<Rightarrow> bool" where
  "is_converged e f outcar_path = is_converged_on (open_read e f outcar_path)"

subsection \<open>\<^verbatim>\<open>prepare_and_submit_rerun\<close>\<close>

definition submit_contents :: "string \<Rightarrow> string" where
  "submit_contents run_folder_basename =
     ''import os, sys'' @ [LF] @
     ''print(os.getcwd())'' @ [LF] @
     ''from ase import io'' @ [LF] @
     ''from src.kul_tools import KulTools as KT'' @ [LF, LF] @
     ''def main():'' @ [LF] @
     ''    target = '' @ [SQ] @ run_folder_basename @ ''/CONTCAR'' @ [SQ, LF] @
     ''    try:'' @ [LF] @
     ''        atoms = io.read(target)'' @ [LF] @
     ''    except Exception as e:'' @ [LF] @
     ''        print(f'Failed to read CONTCAR at {target}: {e}')'' @ [LF] @
     ''        return 1'' @ [LF] @
     ''    atoms.pbc=True'' @ [LF] @
     ''    kt = KT(gamma_only=False,structure_type='zeo')'' @ [LF] @
     ''    kt.set_calculation_type('opt')'' @ [LF] @
     ''    kt.set_structure(atoms)'' @ [LF] @
     ''    kt.set_overall_vasp_params({'gga':'RP','encut':400,'lreal':'Auto', 'algo':'fast', 'isif':3, 'kpts':(1,1,1)})'' @ [LF] @
     ''    kt.run()'' @ [LF] @
     ''    return 0'' @ [LF, LF] @
     ''if __name__ == '__main__':'' @ [LF] @
     ''    raise SystemExit(main())'' @ [LF]"

text \<open>The submission at the end of \<^verbatim>\<open>prepare_and_submit_rerun\<close>, with its report.\<close>

definition submit_sbatch :: "scheduler \<Rightarrow> string \<Rightarrow> world \<Rightarrow> world \<times> error option" where
  "submit_sbatch sbatch trajectory_dir w =
     (let w1 = emit (Sbatch trajectory_dir) w in
      case sbatch w trajectory_dir of
        Completed returncode out err \<Rightarrow>
          (let w2 = py_print (''Submitted sbatch in '' @ trajectory_dir @ '' -> returncode=''
                                @ str_int returncode) w1;
               w3 = (if out \<noteq> [] then py_print (py_strip out) w2 else w2);
               w4 = (if err \<noteq> [] then py_print (py_strip err) w3 else w3)
           in (w4, None))
      | Raised (FileNotFoundError m) \<Rightarrow>
          (py_print ''Error: 'sbatch' command not found in PATH. Submit manually or load Slurm.'' w1,
           None)
      | Raised x \<Rightarrow> (w1, Some x))"

text \<open>
  The result is the world when the call ended and the exception that ended it, if any.
  A primitive that raises leaves the world as it found it.
\<close>

definition prepare_and_submit_rerun ::
  "env \<Rightarrow> scheduler \<Rightarrow> string \<Rightarrow> string \<Rightarrow> string \<Rightarrow> string option \<Rightarrow> bool \<Rightarrow> bool \<Rightarrow> world
     \<Rightarrow> world \<times> error option" where
  "prepare_and_submit_rerun e sbatch source_dir run_dir trajectory_dir helpers_dir copy_to_run_dir
     dry_run w =
     (case os_makedirs e run_dir w of
        Inl x \<Rightarrow> (w, Some x)
      | Inr w1 \<Rightarrow>
     (case os_makedirs e trajectory_dir w1 of
        Inl x \<Rightarrow> (w1, Some x)
      | Inr w2 \<Rightarrow>
     (let dst_submit_traj = os_path_join trajectory_dir ''01_submit_rerun.py'';
          dst_script_traj = os_path_join trajectory_dir ''script_rerun.sh'';
          run_folder_basename = os_path_basename run_dir
      in
     (case write_text e dst_submit_traj (submit_contents run_folder_basename) w2 of
        Inl x \<Rightarrow> (w2, Some x)
      | Inr w3 \<Rightarrow>
     (case find_helper_file e (files w3) ''script_rerun.sh'' helpers_dir of
        Inl x \<Rightarrow> (w3, Some x)
      | Inr src_script \<Rightarrow>
     (case shutil_copy2 e src_script dst_script_traj w3 of
        Inl x \<Rightarrow> (w3, Some x)
      | Inr w4 \<Rightarrow>
     (case (if copy_to_run_dir then
              (case write_text e (os_path_join run_dir ''01_submit_rerun.py'')
                      (submit_contents run_folder_basename) w4 of
                 Inl x \<Rightarrow> Inl (w4, x)
               | Inr w5 \<Rightarrow>
                   (case shutil_copy2 e src_script (os_path_join run_dir ''script_rerun.sh'') w5 of
                      Inl x \<Rightarrow> Inl (w5, x)
                    | Inr w6 \<Rightarrow> Inr w6))
            else Inr w4) of
        Inl (wx, x) \<Rightarrow> (wx, Some x)
      | Inr w6 \<Rightarrow>
     (let w7 = chmod_exec e dst_script_traj w6 in
      if dry_run then
        (py_print (''[DRY-RUN] Would submit: sbatch script_rerun.sh (cwd='' @ trajectory_dir @ '')'') w7,
         None)
      else submit_sbatch sbatch trajectory_dir w7))))))))"

subsection \<open>\<^verbatim>\<open>process\<close>\<close>

text \<open>The key of the sort: the number after the last underscore, or infinity.\<close>

definition suffix_key :: "string \<Rightarrow> error + enat" where
  "suffix_key x =
     (if py_isdigit (last (split_on CHR ''_'' x))
      then (case int_of_digits (last (split_on CHR ''_'' x)) of
              Inl err \<Rightarrow> Inl err
            | Inr n \<Rightarrow> Inr (enat n))
      else Inr \<infinity>)"

definition trajectory_dirs :: "env \<Rightarrow> filesystem \<Rightarrow> string \<Rightarrow> error + string list" where
  "trajectory_dirs e f base_folder =
     (case os_listdir e f base_folder of
        Inl err \<Rightarrow> Inl err
      | Inr names \<Rightarrow>
          py_sorted suffix_key
            (filter (\<lambda>d. os_path_isdir e f (os_path_join base_folder d) \<and> startswith d ''trajectory_'')
               names))"

text \<open>
  Lines 177 to 185 of \<^verbatim>\<open>process\<close>: an existing rerun folder is reused, otherwise the
  calculation folder is copied (in a dry run the copy is only reported).
\<close>

definition stage_rerun_dir ::
  "env \<Rightarrow> bool \<Rightarrow> string \<Rightarrow> string \<Rightarrow> string \<Rightarrow> string \<Rightarrow> world \<Rightarrow> error + world" where
  "stage_rerun_dir e dry_run folder rerun_dir_name source_dir rerun_dir w =
     (let rerun_exists = os_path_exists e (files w) rerun_dir in
      if rerun_exists then
        Inr (py_print (''Rerun folder already exists: '' @ folder @ ''/'' @ rerun_dir_name
                         @ ''. Will reuse it.'') w)
      else if dry_run then
        Inr (py_print (''[DRY-RUN] Would copy folder: '' @ source_dir @ '' -> '' @ rerun_dir) w)
      else shutil_copytree e source_dir rerun_dir w)"

text \<open>
  One round of the loop over the trajectory directories. \<open>None\<close> stands for reaching
  the end of the body or a \<^verbatim>\<open>continue\<close>; an exception leaves the loop.
\<close>

definition process_folder ::
  "env \<Rightarrow> scheduler \<Rightarrow> string \<Rightarrow> string \<Rightarrow> int \<Rightarrow> string option \<Rightarrow> bool \<Rightarrow> string \<Rightarrow> world
     \<Rightarrow> world \<times> error option" where
  "process_folder e sbatch base_folder subfolder_name run_index helpers_dir dry_run folder w =
     (let traj_dir = os_path_join base_folder folder;
          source_dir = os_path_join traj_dir subfolder_name;
          outcar_path = os_path_join source_dir ''OUTCAR''
      in
      if \<not> os_path_isdir e (files w) source_dir then
        (py_print (''Skipping '' @ folder @ '': missing subfolder '' @ [SQ] @ subfolder_name @ [SQ] @ ''.'') w,
         None)
      else if \<not> os_path_isfile e (files w) outcar_path then
        (py_print (''Skipping '' @ folder @ '': missing OUTCAR in '' @ [SQ] @ subfolder_name @ [SQ] @ ''.'') w,
         None)
      else if is_converged e (files w) outcar_path then
        (py_print (''Converged: '' @ folder @ ''/'' @ subfolder_name) w, None)
      else
        let w1 = py_print (''Not converged: '' @ folder @ ''/'' @ subfolder_name
                             @ '' -> creating rerun folder'') w;
            rerun_dir_name = subfolder_name @ ''_run'' @ str_int run_index;
            rerun_dir = os_path_join traj_dir rerun_dir_name
        in
        (case stage_rerun_dir e dry_run folder rerun_dir_name source_dir rerun_dir w1 of
           Inl x \<Rightarrow> (w1, Some x)
         | Inr w2 \<Rightarrow>
             (case prepare_and_submit_rerun e sbatch source_dir rerun_dir traj_dir helpers_dir False
                     dry_run w2 of
                (w3, None) \<Rightarrow> (w3, None)
              | (w3, Some (FileNotFoundError m)) \<Rightarrow>
                  (py_print (''Skipping submission for '' @ folder @ ''/'' @ rerun_dir_name
                               @ '' due to missing helper file(s).'')
                     (py_print m w3),
                   None)
              | (w3, Some x) \<Rightarrow> (w3, Some x))))"

fun process_loop ::
  "env \<Rightarrow> scheduler \<Rightarrow> string \<Rightarrow> string \<Rightarrow> int \<Rightarrow> string option \<Rightarrow> bool \<Rightarrow> string list \<Rightarrow> world
     \<Rightarrow> world \<times> error option" where
  "process_loop e sbatch base_folder subfolder_name run_index helpers_dir dry_run [] w = (w, None)"
| "process_loop e sbatch base_folder subfolder_name run_index helpers_dir dry_run (folder # rest) w =
     (case process_folder e sbatch base_folder subfolder_name run_index helpers_dir dry_run folder w of
        (w', None) \<Rightarrow>
          process_loop e sbatch base_folder subfolder_name run_index helpers_dir dry_run rest w'
      | (w', Some x) \<Rightarrow> (w', Some x))"

definition process ::
  "env \<Rightarrow> scheduler \<Rightarrow> string \<Rightarrow> string \<Rightarrow> int \<Rightarrow> string option \<Rightarrow> bool \<Rightarrow> world
     \<Rightarrow> world \<times> error option" where
  "process e sbatch base_folder subfolder_name run_index helpers_dir dry_run w =
     (case trajectory_dirs e (files w) base_folder of
        Inl x \<Rightarrow> (w, Some x)
      | Inr dirs \<Rightarrow>
          process_loop e sbatch base_folder subfolder_name run_index helpers_dir dry_run dirs w)"

section \<open>Notions used in the statements\<close>

text \<open>
  The search order of the helper locator as the specification words it: the explicit
  directory when one is given, then the current working directory, then the directory
  of the script. \<^verbatim>\<open>find_helper_file\<close> above is compared with the first existing file
  of this list.
\<close>

definition helper_locations :: "env \<Rightarrow> string \<Rightarrow> string option \<Rightarrow> string list" where
  "helper_locations e name explicit_dir =
     (case explicit_dir of
        None \<Rightarrow> []
      | Some d \<Rightarrow> [os_path_abspath e (os_path_join d name)])
     @ [os_path_abspath e (os_path_join (os_getcwd e) name),
        os_path_join (script_dir e) name]"

text \<open>What a call added to the trace, and a bound on what it may have added.\<close>

definition new_events :: "world \<Rightarrow> world \<Rightarrow> event list" where
  "new_events w w' = drop (length (trace w)) (trace w')"

definition only :: "(event \<Rightarrow> bool) \<Rightarrow> world \<Rightarrow> world \<Rightarrow> bool" where
  "only P w w' = (\<exists>evs. trace w' = trace w @ evs \<and> list_all P evs)"

fun is_copytree :: "event \<Rightarrow> bool" where
  "is_copytree (CopyTree s d) = True"
| "is_copytree ev = False"

fun is_sbatch :: "event \<Rightarrow> bool" where
  "is_sbatch (Sbatch d) = True"
| "is_sbatch ev = False"

text \<open>
  The three guards at the head of the loop body of \<^verbatim>\<open>process\<close>: the calculation
  folder is there, it holds an \<^verbatim>\<open>OUTCAR\<close>, and that is not converged.
\<close>

definition needs_rerun :: "env \<Rightarrow> filesystem \<Rightarrow> string \<Rightarrow> string \<Rightarrow> string \<Rightarrow> bool" where
  "needs_rerun e f base_folder subfolder_name folder =
     (let source_dir = os_path_join (os_path_join base_folder folder) subfolder_name;
          outcar_path = os_path_join source_dir ''OUTCAR''
      in os_path_isdir e f source_dir \<and> os_path_isfile e f outcar_path
         \<and> \<not> is_converged e f outcar_path)"

text \<open>Neither a recursive copy nor a submission.\<close>

definition no_copy_no_submit :: "event \<Rightarrow> bool" where
  "no_copy_no_submit ev = (\<not> is_copytree ev \<and> \<not> is_sbatch ev)"

text \<open>The diagnostics of a run: what it printed, in order.\<close>

fun printed :: "event list \<Rightarrow> string list" where
  "printed [] = []"
| "printed (Print s # evs) = s # printed evs"
| "printed (ev # evs) = printed evs"

text \<open>An event that, when it writes a file, writes the given text.\<close>

fun writes_only :: "string \<Rightarrow> event \<Rightarrow> bool" where
  "writes_only text (WriteFile p t) = (t = text)"
| "writes_only text ev = True"



text \<open>The errors the file primitives raise; none of them is the helper locator's.\<close>

definition os_error :: "error \<Rightarrow> bool" where
  "os_error x = (x = FileExistsError \<or> x = NotADirectoryError \<or> x = IsADirectoryError
                  \<or> x = SameFileError \<or> (\<exists>p. x = no_such p))"

section \<open>Example worlds\<close>

text \<open>
  A base folder \<^verbatim>\<open>/b\<close> with one trajectory whose calculation folder \<^verbatim>\<open>opt\<close> holds
  an \<^verbatim>\<open>OUTCAR\<close> of the given text, the working directory \<^verbatim>\<open>/work\<close>, and the
  script's directory \<^verbatim>\<open>/opt/tools\<close>, with or without the submission script.
\<close>

definition example_env :: env where
  "example_env = \<lparr>cwd_parts = [''work''], script_dir = ''/opt/tools'', create_mode = 420\<rparr>"

definition example_files :: "string \<Rightarrow> filesystem" where
  "example_files outcar =
     [([''b''], Dir),
      ([''b'', ''trajectory_0''], Dir),
      ([''b'', ''trajectory_0'', ''opt''], Dir),
      ([''b'', ''trajectory_0'', ''opt'', ''OUTCAR''], File outcar 420),
      ([''b'', ''trajectory_0'', ''opt'', ''CONTCAR''], File ''Si O'' 420),
      ([''work''], Dir),
      ([''opt''], Dir),
      ([''opt'', ''tools''], Dir)]"

definition tools_files :: filesystem where
  "tools_files = [([''opt'', ''tools'', ''script_rerun.sh''], File ''#!/bin/bash'' 420)]"

definition running_outcar :: string where
  "running_outcar = '' energy  without entropy'' @ [LF]"

definition finished_outcar :: string where
  "finished_outcar = running_outcar @ '' '' @ CONVERGENCE_MARKER @ [LF]"

text \<open>
  A base folder with a second trajectory whose suffix is the superscript two (code
  point 178).
\<close>

definition superscript_files :: filesystem where
  "superscript_files =
     [([''b''], Dir),
      ([''b'', ''trajectory_1''], Dir),
      ([''b'', ''trajectory_1'', ''opt''], Dir),
      ([''b'', ''trajectory_1'', ''opt'', ''OUTCAR''], File running_outcar 420),
      ([''b'', ''trajectory_'' @ [CHR 0xB2]], Dir),
      ([''work''], Dir)]"

text \<open>A base folder whose entries show every kind of name.\<close>

definition mixed_files :: filesystem where
  "mixed_files =
     [([''b''], Dir),
      ([''b'', ''trajectory_10''], Dir),
      ([''b'', ''trajectory_abc''], Dir),
      ([''b'', ''trajectory_''], Dir),
      ([''b'', ''trajectory_1_7''], Dir),
      ([''b'', ''traj_5''], Dir),
      ([''b'', ''trajectory_9''], File [] 420)]"

definition example_world :: "filesystem \<Rightarrow> world" where
  "example_world f = \<lparr>files = f, trace = []\<rparr>"

definition example_sbatch :: scheduler where
  "example_sbatch w d = Completed 0 (''Submitted batch job 1'' @ [LF]) []"






section \<open>Basic facts\<close>

lemma startswith_prefix: "startswith s p = prefix p s"
  by (induction s p rule: startswith.induct) auto

lemma py_in_sublist: "py_in needle hay = sublist needle hay"
  by (induction hay) (auto simp: startswith_prefix sublist_Cons_right)

lemma scan_lines_iff: "scan_lines ls = (\<exists>l \<in> set ls. py_in CONVERGENCE_MARKER l)"
  by (induction ls) auto

section \<open>The convergence oracle\<close>

text \<open>
  C1: \<^verbatim>\<open>is_converged\<close> answers true exactly when some line of the artifact holds the
  convergence marker, in particular when a line is the marker itself (with or without
  its line end); it answers false for every artifact without it, the empty one
  included, and for a path that cannot be opened or read (missing, a directory, any
  error); and it is a total function to the booleans, so no path makes it raise.
\<close>

theorem is_converged_marker:
  "is_converged_on (Inr text) = (\<exists>line \<in> set (py_lines text). sublist CONVERGENCE_MARKER line)
   \<and> (CONVERGENCE_MARKER \<in> set (py_lines text) \<or> CONVERGENCE_MARKER @ [LF] \<in> set (py_lines text)
        \<longrightarrow> is_converged_on (Inr text))
   \<and> is_converged_on (Inl err) = False
   \<and> is_converged e f p =
       (case open_read e f p of
          Inl err' \<Rightarrow> False
        | Inr text' \<Rightarrow> (\<exists>line \<in> set (py_lines text'). sublist CONVERGENCE_MARKER line))"
proof -
  have a: "\<And>t. is_converged_on (Inr t) = (\<exists>line \<in> set (py_lines t). sublist CONVERGENCE_MARKER line)"
    by (simp add: is_converged_on_def scan_lines_iff py_in_sublist)
  have b: "\<And>x. is_converged_on (Inl x) = False"
    by (simp add: is_converged_on_def)
  have "sublist CONVERGENCE_MARKER CONVERGENCE_MARKER"
    and "sublist CONVERGENCE_MARKER (CONVERGENCE_MARKER @ [LF])"
    by (simp_all add: prefix_imp_sublist)
  then have c: "CONVERGENCE_MARKER \<in> set (py_lines text) \<or> CONVERGENCE_MARKER @ [LF] \<in> set (py_lines text)
        \<longrightarrow> is_converged_on (Inr text)"
    unfolding a by blast
  have d: "is_converged e f p =
       (case open_read e f p of
          Inl err' \<Rightarrow> False
        | Inr text' \<Rightarrow> (\<exists>line \<in> set (py_lines text'). sublist CONVERGENCE_MARKER line))"
    by (cases "open_read e f p") (simp_all add: is_converged_def a b)
  from a b c d show ?thesis by blast
qed

theorem is_converged_marker_witness:
  "CONVERGENCE_MARKER @ [LF] \<in> set (py_lines (''ab'' @ [LF] @ CONVERGENCE_MARKER @ [LF]))
   \<and> is_converged_on (Inr (''ab'' @ [LF] @ CONVERGENCE_MARKER @ [LF]))
   \<and> \<not> is_converged_on (Inl IsADirectoryError)
   \<and> \<not> is_converged example_env (example_files running_outcar) ''/b/trajectory_0/opt''
   \<and> \<not> is_converged example_env (example_files running_outcar) ''/b/trajectory_0/opt/POSCAR''"
proof -
  have m: "CONVERGENCE_MARKER @ [LF] \<in> set (py_lines (''ab'' @ [LF] @ CONVERGENCE_MARKER @ [LF]))"
    by code_simp
  have o1: "open_read example_env (example_files running_outcar) ''/b/trajectory_0/opt''
              = Inl IsADirectoryError"
    by code_simp
  have o2: "open_read example_env (example_files running_outcar) ''/b/trajectory_0/opt/POSCAR''
              = Inl (no_such ''/b/trajectory_0/opt/POSCAR'')"
    by code_simp
  note t = is_converged_marker [of "''ab'' @ [LF] @ CONVERGENCE_MARKER @ [LF]" IsADirectoryError
      example_env "example_files running_outcar" "''/b/trajectory_0/opt''"]
  note u = is_converged_marker [of "[]" OtherError
      example_env "example_files running_outcar" "''/b/trajectory_0/opt/POSCAR''"]
  from t m have "is_converged_on (Inr (''ab'' @ [LF] @ CONVERGENCE_MARKER @ [LF]))"
    by blast
  moreover from t have "\<not> is_converged_on (Inl IsADirectoryError)"
    by blast
  moreover from t have "is_converged example_env (example_files running_outcar) ''/b/trajectory_0/opt''
      = (case open_read example_env (example_files running_outcar) ''/b/trajectory_0/opt'' of
           Inl err' \<Rightarrow> False
         | Inr text' \<Rightarrow> (\<exists>line \<in> set (py_lines text'). sublist CONVERGENCE_MARKER line))"
    by blast
  then have "\<not> is_converged example_env (example_files running_outcar) ''/b/trajectory_0/opt''"
    by (simp only: o1 sum.case simp_thms)
  moreover from u have "is_converged example_env (example_files running_outcar) ''/b/trajectory_0/opt/POSCAR''
      = (case open_read example_env (example_files running_outcar) ''/b/trajectory_0/opt/POSCAR'' of
           Inl err' \<Rightarrow> False
         | Inr text' \<Rightarrow> (\<exists>line \<in> set (py_lines text'). sublist CONVERGENCE_MARKER line))"
    by blast
  then have "\<not> is_converged example_env (example_files running_outcar) ''/b/trajectory_0/opt/POSCAR''"
    by (simp only: o2 sum.case simp_thms)
  ultimately show ?thesis using m by blast
qed

section \<open>The order of the trajectory directories\<close>

lemma keys_of_Inr:
  "keys_of key xs = Inr ks \<Longrightarrow> length ks = length xs \<and> (\<forall>p \<in> set (zip ks xs). key (snd p) = Inr (fst p))"
  by (induction xs arbitrary: ks) (auto split: sum.splits)

lemma keys_of_Inl: "keys_of key xs = Inl err \<Longrightarrow> \<exists>x \<in> set xs. key x = Inl err"
  by (induction xs) (auto split: sum.splits)

lemma keys_of_pairs:
  "\<forall>p \<in> set ps. key (snd p) = Inr (fst p) \<Longrightarrow> keys_of key (map snd ps) = Inr (map fst ps)"
  by (induction ps) auto

lemma sorted_top_last:
  "sorted (map fst ps) \<Longrightarrow>
   ps = filter (\<lambda>p. fst p \<noteq> (\<infinity>::enat)) ps @ filter (\<lambda>p. fst p = \<infinity>) ps"
proof (induction ps)
  case Nil
  then show ?case by simp
next
  case (Cons p ps)
  show ?case
  proof (cases "fst p = \<infinity>")
    case True
    with Cons.prems have "\<forall>q \<in> set ps. fst q = \<infinity>" by auto
    then have "filter (\<lambda>p. fst p \<noteq> \<infinity>) ps = []" "filter (\<lambda>p. fst p = \<infinity>) ps = ps"
      by (auto simp: filter_empty_conv filter_id_conv)
    with True show ?thesis by simp
  next
    case False
    with Cons show ?thesis by auto
  qed
qed

lemma py_sorted_Inr:
  fixes key :: "'a \<Rightarrow> error + enat"
  assumes "py_sorted key xs = Inr order"
  shows "\<exists>ks. keys_of key order = Inr ks \<and> sorted ks"
    and "mset order = mset xs"
    and "filter (\<lambda>x. key x = Inr k) order = filter (\<lambda>x. key x = Inr k) xs"
    and "order = filter (\<lambda>x. key x \<noteq> Inr \<infinity>) order @ filter (\<lambda>x. key x = Inr \<infinity>) order"
proof -
  from assms obtain ks where ks: "keys_of key xs = Inr ks"
    and order: "order = map snd (sort_key fst (zip ks xs))"
    by (auto simp: py_sorted_def split: sum.splits)
  define ps where "ps = sort_key fst (zip ks xs)"
  from keys_of_Inr [OF ks] have len: "length ks = length xs"
    and zs: "\<forall>p \<in> set (zip ks xs). key (snd p) = Inr (fst p)" by auto
  have pairs: "\<forall>p \<in> set ps. key (snd p) = Inr (fst p)"
    using zs by (simp add: ps_def)
  have "keys_of key order = Inr (map fst ps)"
    unfolding order ps_def [symmetric] by (rule keys_of_pairs [OF pairs])
  moreover have srt: "sorted (map fst ps)" by (simp add: ps_def)
  ultimately show "\<exists>ks. keys_of key order = Inr ks \<and> sorted ks" by blast
  have "mset order = image_mset snd (mset (zip ks xs))"
    by (simp add: order)
  also have "\<dots> = mset (map snd (zip ks xs))" by simp
  also have "map snd (zip ks xs) = xs" using len by simp
  finally show "mset order = mset xs" .
  have sel: "\<And>qs j. \<forall>p \<in> set qs. key (snd p) = Inr (fst p) \<Longrightarrow>
      filter (\<lambda>x. key x = Inr j) (map snd qs) = map snd (filter (\<lambda>p. fst p = j) qs)"
    by (simp add: filter_map comp_def cong: filter_cong)
  have nsel: "\<And>qs j. \<forall>p \<in> set qs. key (snd p) = Inr (fst p) \<Longrightarrow>
      filter (\<lambda>x. key x \<noteq> Inr j) (map snd qs) = map snd (filter (\<lambda>p. fst p \<noteq> j) qs)"
    by (simp add: filter_map comp_def cong: filter_cong)
  have "filter (\<lambda>x. key x = Inr k) order = map snd (filter (\<lambda>p. fst p = k) ps)"
    unfolding order ps_def [symmetric] by (rule sel [OF pairs])
  also have "filter (\<lambda>p. fst p = k) ps = filter (\<lambda>p. fst p = k) (zip ks xs)"
    unfolding ps_def by (rule sort_key_stable)
  also have "map snd \<dots> = filter (\<lambda>x. key x = Inr k) (map snd (zip ks xs))"
    by (rule sel [OF zs, symmetric])
  also have "map snd (zip ks xs) = xs" using len by simp
  finally show "filter (\<lambda>x. key x = Inr k) order = filter (\<lambda>x. key x = Inr k) xs" .
  have "order = map snd (filter (\<lambda>p. fst p \<noteq> \<infinity>) ps @ filter (\<lambda>p. fst p = \<infinity>) ps)"
    using sorted_top_last [OF srt] by (simp add: order ps_def [symmetric])
  then show "order = filter (\<lambda>x. key x \<noteq> Inr \<infinity>) order @ filter (\<lambda>x. key x = Inr \<infinity>) order"
    using sel [OF pairs, of \<infinity>] nsel [OF pairs, of \<infinity>]
    by (simp add: order ps_def [symmetric])
qed

lemma suffix_key_Inl: "suffix_key x = Inl err \<Longrightarrow> err = ValueError"
  by (auto simp: suffix_key_def int_of_digits_def split: if_splits sum.splits)

lemma py_sorted_Inl: "py_sorted key xs = Inl err \<Longrightarrow> \<exists>x \<in> set xs. key x = Inl err"
  by (auto simp: py_sorted_def split: sum.splits dest: keys_of_Inl)

text \<open>
  When the sort of a list of names returns, the order it gives is a rearrangement of
  the names whose keys, the integer after the last underscore or infinity for a suffix
  that is not a number, never decrease; every name with a numeric suffix comes before
  every name without one, and the names without one follow in exactly the order in
  which they were listed. The sort does not return only when a key raises.
\<close>

theorem trajectory_order_sorted:
  "case py_sorted suffix_key names of
     Inr order \<Rightarrow>
       (\<exists>ks. keys_of suffix_key order = Inr ks \<and> sorted ks)
       \<and> mset order = mset names
       \<and> order = filter (\<lambda>x. suffix_key x \<noteq> Inr \<infinity>) order
                  @ filter (\<lambda>x. suffix_key x = Inr \<infinity>) names
   | Inl err \<Rightarrow> err = ValueError \<and> (\<exists>x \<in> set names. suffix_key x = Inl ValueError)"
proof (cases "py_sorted suffix_key names")
  case (Inl err)
  from py_sorted_Inl [OF Inl] obtain x where "x \<in> set names" "suffix_key x = Inl err" by blast
  with Inl suffix_key_Inl [of x err] show ?thesis by auto
next
  case (Inr order)
  from py_sorted_Inr(4) [OF Inr] py_sorted_Inr(3) [OF Inr, of \<infinity>]
  have "order = filter (\<lambda>x. suffix_key x \<noteq> Inr \<infinity>) order
                  @ filter (\<lambda>x. suffix_key x = Inr \<infinity>) names" by simp
  with Inr py_sorted_Inr(1,2) [OF Inr] show ?thesis by simp
qed

theorem trajectory_order_sorted_witness:
  "py_sorted suffix_key [''trajectory_10'', ''trajectory_b'', ''trajectory_2'', ''trajectory_a'']
     = Inr [''trajectory_2'', ''trajectory_10'', ''trajectory_b'', ''trajectory_a'']
   \<and> (\<exists>ks. keys_of suffix_key [''trajectory_2'', ''trajectory_10'', ''trajectory_b'', ''trajectory_a'']
              = Inr ks \<and> sorted ks)
   \<and> mset [''trajectory_2'', ''trajectory_10'', ''trajectory_b'', ''trajectory_a'']
       = mset [''trajectory_10'', ''trajectory_b'', ''trajectory_2'', ''trajectory_a'']"
proof -
  have eq: "py_sorted suffix_key [''trajectory_10'', ''trajectory_b'', ''trajectory_2'', ''trajectory_a'']
     = Inr [''trajectory_2'', ''trajectory_10'', ''trajectory_b'', ''trajectory_a'']"
    by code_simp
  have "case Inr [''trajectory_2'', ''trajectory_10'', ''trajectory_b'', ''trajectory_a''] of
     Inr order \<Rightarrow>
       (\<exists>ks. keys_of suffix_key order = Inr ks \<and> sorted ks)
       \<and> mset order = mset [''trajectory_10'', ''trajectory_b'', ''trajectory_2'', ''trajectory_a'']
       \<and> order = filter (\<lambda>x. suffix_key x \<noteq> Inr \<infinity>) order
                  @ filter (\<lambda>x. suffix_key x = Inr \<infinity>)
                      [''trajectory_10'', ''trajectory_b'', ''trajectory_2'', ''trajectory_a'']
   | Inl err \<Rightarrow> err = ValueError
       \<and> (\<exists>x \<in> set [''trajectory_10'', ''trajectory_b'', ''trajectory_2'', ''trajectory_a''].
             suffix_key x = Inl ValueError)"
    using trajectory_order_sorted
      [of "[''trajectory_10'', ''trajectory_b'', ''trajectory_2'', ''trajectory_a'']"]
    by (simp only: eq)
  then have "(\<exists>ks. keys_of suffix_key [''trajectory_2'', ''trajectory_10'', ''trajectory_b'', ''trajectory_a'']
              = Inr ks \<and> sorted ks)
   \<and> mset [''trajectory_2'', ''trajectory_10'', ''trajectory_b'', ''trajectory_a'']
       = mset [''trajectory_10'', ''trajectory_b'', ''trajectory_2'', ''trajectory_a'']"
    by (simp only: sum.case)
  with eq show ?thesis by blast
qed

text \<open>
  For \<^verbatim>\<open>process\<close> this reads: when the selection of the trajectory directories
  returns, the loop runs over them in an order with these properties.
\<close>

theorem process_order_sorted:
  assumes "os_listdir e (files w) base = Inr names"
    and "trajectory_dirs e (files w) base = Inr order"
  shows "(\<exists>ks. keys_of suffix_key order = Inr ks \<and> sorted ks)
    \<and> order = filter (\<lambda>x. suffix_key x \<noteq> Inr \<infinity>) order
               @ filter (\<lambda>x. suffix_key x = Inr \<infinity>)
                   (filter (\<lambda>d. os_path_isdir e (files w) (os_path_join base d)
                                 \<and> prefix ''trajectory_'' d) names)
    \<and> process e sb base sub idx h d w = process_loop e sb base sub idx h d order w"
proof -
  let ?sel = "filter (\<lambda>d. os_path_isdir e (files w) (os_path_join base d) \<and> startswith d ''trajectory_'')
                names"
  from assms have s: "py_sorted suffix_key ?sel = Inr order"
    by (simp add: trajectory_dirs_def)
  from trajectory_order_sorted [of ?sel] s assms(2) show ?thesis
    by (simp add: process_def startswith_prefix)
qed

lemma keys_of_mem_Inl: "x \<in> set xs \<Longrightarrow> key x = Inl a \<Longrightarrow> \<exists>b. keys_of key xs = Inl b"
  by (induction xs) (auto split: sum.splits)

lemma suffix_key_rejected:
  "py_isdigit (last (split_on CHR ''_'' name)) \<Longrightarrow>
   \<not> list_all is_ascii_digit (last (split_on CHR ''_'' name)) \<Longrightarrow>
   suffix_key name = Inl ValueError"
  by (simp add: suffix_key_def int_of_digits_def)

text \<open>
  C4: the claimed order is not what happens for every set of names. When the base
  folder lists a directory whose name starts with \<^verbatim>\<open>trajectory_\<close> and whose last
  component between underscores passes \<^verbatim>\<open>isdigit()\<close> without being made of the digits
  0 to 9, as a superscript two does, the guard of the sort key lets it through,
  \<^verbatim>\<open>int\<close> raises \<^verbatim>\<open>ValueError\<close>, and \<^verbatim>\<open>process\<close> ends with that error in the
  world it started in: no directory is visited, in any order, whereas the claim has a
  name without an integer suffix visited after those with one.
\<close>

theorem superscript_suffix_aborts:
  "os_listdir e (files w) base = Inr names
   \<and> name \<in> set names
   \<and> os_path_isdir e (files w) (os_path_join base name)
   \<and> prefix ''trajectory_'' name
   \<and> py_isdigit (last (split_on CHR ''_'' name))
   \<and> \<not> list_all is_ascii_digit (last (split_on CHR ''_'' name))
   \<longrightarrow> trajectory_dirs e (files w) base = Inl ValueError
       \<and> process e sb base sub idx h d w = (w, Some ValueError)"
proof
  assume a: "os_listdir e (files w) base = Inr names
   \<and> name \<in> set names
   \<and> os_path_isdir e (files w) (os_path_join base name)
   \<and> prefix ''trajectory_'' name
   \<and> py_isdigit (last (split_on CHR ''_'' name))
   \<and> \<not> list_all is_ascii_digit (last (split_on CHR ''_'' name))"
  let ?sel = "filter (\<lambda>d. os_path_isdir e (files w) (os_path_join base d) \<and> startswith d ''trajectory_'')
                names"
  from a have k: "suffix_key name = Inl ValueError" by (simp add: suffix_key_rejected)
  from a have m: "name \<in> set ?sel" by (simp add: startswith_prefix)
  from keys_of_mem_Inl [of name ?sel suffix_key ValueError, OF m k] obtain b where "keys_of suffix_key ?sel = Inl b" by blast
  then have s: "py_sorted suffix_key ?sel = Inl b" by (simp add: py_sorted_def)
  from py_sorted_Inl [OF s] suffix_key_Inl have "b = ValueError" by blast
  with s a have t: "trajectory_dirs e (files w) base = Inl ValueError"
    by (simp add: trajectory_dirs_def)
  then show "trajectory_dirs e (files w) base = Inl ValueError
       \<and> process e sb base sub idx h d w = (w, Some ValueError)"
    by (simp add: process_def)
qed

theorem superscript_suffix_aborts_witness:
  "process example_env example_sbatch ''/b'' ''opt'' 1 None False (example_world superscript_files)
     = (example_world superscript_files, Some ValueError)
   \<and> os_listdir example_env superscript_files ''/b''
       = Inr [''trajectory_1'', ''trajectory_'' @ [CHR 0xB2]]
   \<and> suffix_key ''trajectory_1'' = Inr (enat 1)
   \<and> needs_rerun example_env superscript_files ''/b'' ''opt'' ''trajectory_1''"
proof -
  let ?w = "example_world superscript_files"
  have a: "os_listdir example_env (files ?w) ''/b'' = Inr [''trajectory_1'', ''trajectory_'' @ [CHR 0xB2]]"
    by code_simp
  have a': "os_listdir example_env superscript_files ''/b''
       = Inr [''trajectory_1'', ''trajectory_'' @ [CHR 0xB2]]"
    by code_simp
  have b: "''trajectory_'' @ [CHR 0xB2] \<in> set [''trajectory_1'', ''trajectory_'' @ [CHR 0xB2]]"
    by simp
  have c: "os_path_isdir example_env (files ?w) (os_path_join ''/b'' (''trajectory_'' @ [CHR 0xB2]))"
    by code_simp
  have d: "prefix ''trajectory_'' (''trajectory_'' @ [CHR 0xB2])" by simp
  have e: "py_isdigit (last (split_on CHR ''_'' (''trajectory_'' @ [CHR 0xB2])))" by code_simp
  have f: "\<not> list_all is_ascii_digit (last (split_on CHR ''_'' (''trajectory_'' @ [CHR 0xB2])))"
    by code_simp
  have g: "suffix_key ''trajectory_1'' = Inr (enat 1)" by code_simp
  have h: "needs_rerun example_env superscript_files ''/b'' ''opt'' ''trajectory_1''" by code_simp
  from superscript_suffix_aborts [where e = example_env and w = ?w and base = "''/b''"
      and names = "[''trajectory_1'', ''trajectory_'' @ [CHR 0xB2]]"
      and name = "''trajectory_'' @ [CHR 0xB2]" and sb = example_sbatch and sub = "''opt''"
      and idx = 1 and h = None and d = False] a b c d e f
  have "process example_env example_sbatch ''/b'' ''opt'' 1 None False ?w = (?w, Some ValueError)"
    by blast
  with a' g h show ?thesis by blast
qed

section \<open>The helper locator\<close>

lemma getcwd_abs: "startswith (os_getcwd e) ''/''"
  by (cases "cwd_parts e") (auto simp: os_getcwd_def)

lemma join_empty: "os_path_join [] b = b"
  by (simp add: os_path_join_def)

lemma join_cwd_abs: "startswith (os_path_join (os_getcwd e) b) ''/''"
  using getcwd_abs [of e]
  by (cases "os_getcwd e") (auto simp: os_path_join_def)

lemma abspath_join_cwd: "os_path_abspath e (os_path_join (os_getcwd e) name) = os_path_abspath e name"
  using join_cwd_abs [of e name]
  by (auto simp: os_path_abspath_def os_path_isabs_def os_path_join_def)

text \<open>
  C5: \<^verbatim>\<open>find_helper_file\<close> returns the first existing file among at most three
  locations, taken in this order: the file in the explicit directory when one is given,
  the file in the current working directory, the file in the directory of the script.
  It returns that one path as it is, and when none of them is a file it raises
  \<^verbatim>\<open>FileNotFoundError\<close> for the file name.
\<close>

theorem find_helper_file_first_match:
  "find_helper_file e f name explicit_dir =
     (case find (os_path_isfile e f) (helper_locations e name explicit_dir) of
        Some p \<Rightarrow> Inr p
      | None \<Rightarrow> Inl (FileNotFoundError (''Could not find required file: '' @ name)))
   \<and> length (helper_locations e name explicit_dir) \<le> 3"
proof (cases explicit_dir)
  case None
  then show ?thesis
    by (simp add: find_helper_file_def helper_locations_def Let_def)
next
  case (Some h)
  show ?thesis
  proof (cases "h = []")
    case True
    with Some show ?thesis
      by (simp add: find_helper_file_def helper_locations_def Let_def join_empty abspath_join_cwd)
  next
    case False
    with Some show ?thesis
      by (simp add: find_helper_file_def helper_locations_def Let_def)
  qed
qed

theorem find_helper_file_first_match_witness:
  "find_helper_file example_env (example_files running_outcar @ tools_files) ''script_rerun.sh''
      (Some ''helpers'')
     = Inr ''/opt/tools/script_rerun.sh''
   \<and> find_helper_file example_env (example_files running_outcar) ''script_rerun.sh'' None
     = Inl (FileNotFoundError ''Could not find required file: script_rerun.sh'')"
proof -
  have a: "find (os_path_isfile example_env (example_files running_outcar @ tools_files))
             (helper_locations example_env ''script_rerun.sh'' (Some ''helpers''))
           = Some ''/opt/tools/script_rerun.sh''"
    by code_simp
  have b: "find (os_path_isfile example_env (example_files running_outcar))
             (helper_locations example_env ''script_rerun.sh'' None)
           = None"
    by code_simp
  from find_helper_file_first_match [of example_env "example_files running_outcar @ tools_files"
      "''script_rerun.sh''" "Some ''helpers''"]
  have "find_helper_file example_env (example_files running_outcar @ tools_files) ''script_rerun.sh''
      (Some ''helpers'') = Inr ''/opt/tools/script_rerun.sh''"
    by (simp only: a option.case)
  moreover from find_helper_file_first_match [of example_env "example_files running_outcar"
      "''script_rerun.sh''" None]
  have "find_helper_file example_env (example_files running_outcar) ''script_rerun.sh'' None
     = Inl (FileNotFoundError (''Could not find required file: '' @ ''script_rerun.sh''))"
    by (simp only: b option.case)
  ultimately show ?thesis by simp
qed

section \<open>Traces\<close>

lemma emit_simps [simp]: "trace (emit ev w) = trace w @ [ev]" "files (emit ev w) = files w"
  by (simp_all add: emit_def)

lemma py_print_simps [simp]: "trace (py_print s w) = trace w @ [Print s]" "files (py_print s w) = files w"
  by (simp_all add: py_print_def)

lemma only_refl: "only P w w"
  by (simp add: only_def)

lemma only_trans: "only P w w1 \<Longrightarrow> only P w1 w2 \<Longrightarrow> only P w w2"
  by (auto simp: only_def)

lemma only_emit: "P ev \<Longrightarrow> only P w (emit ev w)"
  by (simp add: only_def)

lemma only_print: "P (Print s) \<Longrightarrow> only P w (py_print s w)"
  by (simp add: only_def)

lemma only_new_events: "only P w w' \<Longrightarrow> list_all P (new_events w w')"
  by (auto simp: only_def new_events_def)

lemma only_mono: "only P w w' \<Longrightarrow> (\<And>ev. P ev \<Longrightarrow> Q ev) \<Longrightarrow> only Q w w'"
  by (auto simp: only_def list_all_iff)

lemma os_makedirs_Inr:
  "os_makedirs e p w = Inr w' \<Longrightarrow>
     trace w' = trace w @ [Makedirs p] \<and> fs_makedirs e (files w) p = Inr (files w')"
  by (auto simp: os_makedirs_def split: sum.splits)

lemma write_text_Inr:
  "write_text e p t w = Inr w' \<Longrightarrow>
     trace w' = trace w @ [WriteFile p t] \<and> fs_write e (files w) p t = Inr (files w')"
  by (auto simp: write_text_def split: sum.splits)

lemma shutil_copy2_Inr:
  "shutil_copy2 e s d w = Inr w' \<Longrightarrow>
     trace w' = trace w @ [Copy2 s d] \<and> fs_copy2 e (files w) s d = Inr (files w')"
  by (auto simp: shutil_copy2_def split: sum.splits)

lemma shutil_copytree_Inr:
  "shutil_copytree e s d w = Inr w' \<Longrightarrow>
     trace w' = trace w @ [CopyTree s d] \<and> fs_copytree e (files w) s d = Inr (files w')"
  by (auto simp: shutil_copytree_def split: sum.splits)

lemma chmod_exec_trace:
  "trace (chmod_exec e p w) = trace w \<or> trace (chmod_exec e p w) = trace w @ [Chmod p]"
  by (simp add: chmod_exec_def)

lemma only_makedirs: "os_makedirs e p w = Inr w' \<Longrightarrow> P (Makedirs p) \<Longrightarrow> only P w w'"
  by (auto simp: only_def dest: os_makedirs_Inr)

lemma only_write: "write_text e p t w = Inr w' \<Longrightarrow> P (WriteFile p t) \<Longrightarrow> only P w w'"
  by (auto simp: only_def dest: write_text_Inr)

lemma only_copy2: "shutil_copy2 e s d w = Inr w' \<Longrightarrow> P (Copy2 s d) \<Longrightarrow> only P w w'"
  by (auto simp: only_def dest: shutil_copy2_Inr)

lemma only_copytree: "shutil_copytree e s d w = Inr w' \<Longrightarrow> P (CopyTree s d) \<Longrightarrow> only P w w'"
  by (auto simp: only_def dest: shutil_copytree_Inr)

lemma only_chmod: "P (Chmod p) \<Longrightarrow> only P w (chmod_exec e p w)"
  using chmod_exec_trace [of e p w] by (auto simp: only_def)


lemma only_sbatch:
  assumes "submit_sbatch sb d w = (w', r)" and "P (Sbatch d)" and "\<And>s. P (Print s)"
  shows "only P w w'"
proof (cases "sb w d")
  case (Completed rc out err)
  with assms show ?thesis
    by (cases "out = []"; cases "err = []") (auto simp: submit_sbatch_def Let_def only_def)
next
  case (Raised x)
  with assms show ?thesis
    by (cases x) (auto simp: submit_sbatch_def Let_def only_def)
qed


lemma prepare_cases:
  assumes "prepare_and_submit_rerun e sb src run traj h c d w = (w', r)"
  obtains
    (mk_run) x where "os_makedirs e run w = Inl x" "w' = w" "r = Some x"
  | (mk_traj) w1 x where "os_makedirs e run w = Inr w1" "os_makedirs e traj w1 = Inl x"
      "w' = w1" "r = Some x"
  | (wr) w1 w2 x where "os_makedirs e run w = Inr w1" "os_makedirs e traj w1 = Inr w2"
      "write_text e (os_path_join traj ''01_submit_rerun.py'')
         (submit_contents (os_path_basename run)) w2 = Inl x"
      "w' = w2" "r = Some x"
  | (helper) w1 w2 w3 x where "os_makedirs e run w = Inr w1" "os_makedirs e traj w1 = Inr w2"
      "write_text e (os_path_join traj ''01_submit_rerun.py'')
         (submit_contents (os_path_basename run)) w2 = Inr w3"
      "find_helper_file e (files w3) ''script_rerun.sh'' h = Inl x"
      "w' = w3" "r = Some x"
  | (cp) w1 w2 w3 s x where "os_makedirs e run w = Inr w1" "os_makedirs e traj w1 = Inr w2"
      "write_text e (os_path_join traj ''01_submit_rerun.py'')
         (submit_contents (os_path_basename run)) w2 = Inr w3"
      "find_helper_file e (files w3) ''script_rerun.sh'' h = Inr s"
      "shutil_copy2 e s (os_path_join traj ''script_rerun.sh'') w3 = Inl x"
      "w' = w3" "r = Some x"
  | (wr_run) w1 w2 w3 s w4 x where "os_makedirs e run w = Inr w1" "os_makedirs e traj w1 = Inr w2"
      "write_text e (os_path_join traj ''01_submit_rerun.py'')
         (submit_contents (os_path_basename run)) w2 = Inr w3"
      "find_helper_file e (files w3) ''script_rerun.sh'' h = Inr s"
      "shutil_copy2 e s (os_path_join traj ''script_rerun.sh'') w3 = Inr w4"
      "c"
      "write_text e (os_path_join run ''01_submit_rerun.py'')
         (submit_contents (os_path_basename run)) w4 = Inl x"
      "w' = w4" "r = Some x"
  | (cp_run) w1 w2 w3 s w4 w5 x where "os_makedirs e run w = Inr w1" "os_makedirs e traj w1 = Inr w2"
      "write_text e (os_path_join traj ''01_submit_rerun.py'')
         (submit_contents (os_path_basename run)) w2 = Inr w3"
      "find_helper_file e (files w3) ''script_rerun.sh'' h = Inr s"
      "shutil_copy2 e s (os_path_join traj ''script_rerun.sh'') w3 = Inr w4"
      "c"
      "write_text e (os_path_join run ''01_submit_rerun.py'')
         (submit_contents (os_path_basename run)) w4 = Inr w5"
      "shutil_copy2 e s (os_path_join run ''script_rerun.sh'') w5 = Inl x"
      "w' = w5" "r = Some x"
  | (staged) w1 w2 w3 s w4 w6 where "os_makedirs e run w = Inr w1" "os_makedirs e traj w1 = Inr w2"
      "write_text e (os_path_join traj ''01_submit_rerun.py'')
         (submit_contents (os_path_basename run)) w2 = Inr w3"
      "find_helper_file e (files w3) ''script_rerun.sh'' h = Inr s"
      "shutil_copy2 e s (os_path_join traj ''script_rerun.sh'') w3 = Inr w4"
      "if c then (\<exists>w5. write_text e (os_path_join run ''01_submit_rerun.py'')
                         (submit_contents (os_path_basename run)) w4 = Inr w5
                      \<and> shutil_copy2 e s (os_path_join run ''script_rerun.sh'') w5 = Inr w6)
       else w6 = w4"
      "(w', r) =
         (if d then
            (py_print (''[DRY-RUN] Would submit: sbatch script_rerun.sh (cwd='' @ traj @ '')'')
               (chmod_exec e (os_path_join traj ''script_rerun.sh'') w6), None)
          else submit_sbatch sb traj (chmod_exec e (os_path_join traj ''script_rerun.sh'') w6))"
proof (cases "os_makedirs e run w")
  case (Inl x)
  show ?thesis
    by (rule mk_run [of x]) (use assms Inl in \<open>simp_all add: prepare_and_submit_rerun_def\<close>)
next
  case a1: (Inr w1)
  show ?thesis
  proof (cases "os_makedirs e traj w1")
    case (Inl x)
    show ?thesis
      by (rule mk_traj [of w1 x])
        (use assms a1 Inl in \<open>simp_all add: prepare_and_submit_rerun_def\<close>)
  next
    case a2: (Inr w2)
    show ?thesis
    proof (cases "write_text e (os_path_join traj ''01_submit_rerun.py'')
         (submit_contents (os_path_basename run)) w2")
      case (Inl x)
      show ?thesis
        by (rule wr [of w1 w2 x])
          (use assms a1 a2 Inl in \<open>simp_all add: prepare_and_submit_rerun_def\<close>)
    next
      case a3: (Inr w3)
      show ?thesis
      proof (cases "find_helper_file e (files w3) ''script_rerun.sh'' h")
        case (Inl x)
        show ?thesis
          by (rule helper [of w1 w2 w3 x])
            (use assms a1 a2 a3 Inl in \<open>simp_all add: prepare_and_submit_rerun_def\<close>)
      next
        case a4: (Inr s)
        show ?thesis
        proof (cases "shutil_copy2 e s (os_path_join traj ''script_rerun.sh'') w3")
          case (Inl x)
          show ?thesis
            by (rule cp [of w1 w2 w3 s x])
              (use assms a1 a2 a3 a4 Inl in \<open>simp_all add: prepare_and_submit_rerun_def\<close>)
        next
          case a5: (Inr w4)
          show ?thesis
          proof (cases c)
            case False
            show ?thesis
              by (rule staged [of w1 w2 w3 s w4 w4])
                (use assms a1 a2 a3 a4 a5 False in
                  \<open>auto simp add: prepare_and_submit_rerun_def Let_def\<close>)
          next
            case c: True
            show ?thesis
            proof (cases "write_text e (os_path_join run ''01_submit_rerun.py'')
                (submit_contents (os_path_basename run)) w4")
              case (Inl x)
              show ?thesis
                by (rule wr_run [of w1 w2 w3 s w4 x])
                  (use assms a1 a2 a3 a4 a5 c Inl in
                    \<open>simp_all add: prepare_and_submit_rerun_def\<close>)
            next
              case a6: (Inr w5)
              show ?thesis
              proof (cases "shutil_copy2 e s (os_path_join run ''script_rerun.sh'') w5")
                case (Inl x)
                show ?thesis
                  by (rule cp_run [of w1 w2 w3 s w4 w5 x])
                    (use assms a1 a2 a3 a4 a5 c a6 Inl in
                      \<open>simp_all add: prepare_and_submit_rerun_def\<close>)
              next
                case a7: (Inr w6)
                show ?thesis
                  by (rule staged [of w1 w2 w3 s w4 w6])
                    (use assms a1 a2 a3 a4 a5 c a6 a7 in
                      \<open>auto simp add: prepare_and_submit_rerun_def Let_def\<close>)
              qed
            qed
          qed
        qed
      qed
    qed
  qed
qed

section \<open>The file primitives\<close>

lemma fs_lookup_update:
  "k \<noteq> [] \<Longrightarrow> fs_lookup (AList.update k v f) k' = (if k' = k then Some v else fs_lookup f k')"
  by (simp add: fs_lookup_def update_conv')

lemma mkdirs_from_keeps:
  "mkdirs_from f pre cs = Inr f' \<Longrightarrow> fs_lookup f k = Some n \<Longrightarrow> fs_lookup f' k = Some n"
proof (induction cs arbitrary: f pre)
  case Nil
  then show ?case by simp
next
  case (Cons c cs)
  show ?case
  proof (cases "fs_lookup f (pre @ [c])")
    case None
    with Cons.prems have "mkdirs_from (AList.update (pre @ [c]) Dir f) (pre @ [c]) cs = Inr f'"
      by simp
    moreover from None Cons.prems(2) have "fs_lookup (AList.update (pre @ [c]) Dir f) k = Some n"
      by (auto simp: fs_lookup_update)
    ultimately show ?thesis by (rule Cons.IH)
  next
    case (Some nd)
    with Cons show ?thesis by (cases nd) auto
  qed
qed

lemma mkdirs_from_dir:
  "mkdirs_from f pre cs = Inr f' \<Longrightarrow> fs_lookup f pre = Some Dir \<Longrightarrow> fs_lookup f' (pre @ cs) = Some Dir"
proof (induction cs arbitrary: f pre)
  case Nil
  then show ?case by simp
next
  case (Cons c cs)
  show ?case
  proof (cases "fs_lookup f (pre @ [c])")
    case None
    with Cons.prems have "mkdirs_from (AList.update (pre @ [c]) Dir f) (pre @ [c]) cs = Inr f'"
      by simp
    moreover have "fs_lookup (AList.update (pre @ [c]) Dir f) (pre @ [c]) = Some Dir"
      by (simp add: fs_lookup_update)
    ultimately have "fs_lookup f' ((pre @ [c]) @ cs) = Some Dir" by (rule Cons.IH)
    then show ?thesis by simp
  next
    case (Some nd)
    show ?thesis
    proof (cases nd)
      case (File t m)
      with Some Cons.prems show ?thesis by simp
    next
      case Dir
      with Some Cons.prems have "mkdirs_from f (pre @ [c]) cs = Inr f'" by simp
      from Cons.IH [OF this] Some Dir show ?thesis by simp
    qed
  qed
qed

lemma mkdirs_from_err:
  "mkdirs_from f pre cs = Inl x \<Longrightarrow> x = FileExistsError \<or> x = NotADirectoryError"
proof (induction cs arbitrary: f pre)
  case Nil
  then show ?case by simp
next
  case (Cons c cs)
  show ?case
  proof (cases "fs_lookup f (pre @ [c])")
    case None
    with Cons show ?thesis by auto
  next
    case (Some nd)
    with Cons show ?thesis by (cases nd) (auto split: if_splits)
  qed
qed

lemma fs_makedirs_isdir: "fs_makedirs e f p = Inr f' \<Longrightarrow> os_path_isdir e f' p"
  using mkdirs_from_dir [of f "[]" "path_key e p" f']
  by (auto simp: fs_makedirs_def os_path_isdir_def os_stat_def fs_lookup_def split: if_splits)

lemma fs_makedirs_keeps:
  "fs_makedirs e f p = Inr f' \<Longrightarrow> os_stat e f q = Some n \<Longrightarrow> os_stat e f' q = Some n"
  using mkdirs_from_keeps [of f "[]" "path_key e p" f' "path_key e q" n]
  by (auto simp: fs_makedirs_def os_stat_def split: if_splits)

lemma fs_makedirs_err: "fs_makedirs e f p = Inl x \<Longrightarrow> p \<noteq> [] \<Longrightarrow> x = FileExistsError \<or> x = NotADirectoryError"
  by (auto simp: fs_makedirs_def dest: mkdirs_from_err)

lemma fs_write_read: "fs_write e f p t = Inr f' \<Longrightarrow> open_read e f' p = Inr t"
  by (auto simp: fs_write_def open_read_def os_stat_def Let_def fs_lookup_def update_conv'
      split: if_splits option.splits node.splits)

lemma fs_write_keeps_dir:
  "fs_write e f p t = Inr f' \<Longrightarrow> os_path_isdir e f q \<Longrightarrow> os_path_isdir e f' q"
  by (auto simp: fs_write_def os_path_isdir_def os_stat_def Let_def fs_lookup_def update_conv'
      split: if_splits option.splits node.splits)

lemma join_nonempty: "b \<noteq> [] \<Longrightarrow> os_path_join a b \<noteq> []"
  by (auto simp: os_path_join_def)

lemma is_converged_isfile: "is_converged e f p \<Longrightarrow> os_path_isfile e f p"
  by (auto simp: is_converged_def is_converged_on_def open_read_def os_path_isfile_def
      split: option.splits node.splits)

lemma os_error_not_helper: "os_error x \<Longrightarrow> x \<noteq> FileNotFoundError (''Could not find required file: '' @ name)"
  by (auto simp: os_error_def no_such_def)

lemma fs_makedirs_os_error: "fs_makedirs e f p = Inl x \<Longrightarrow> os_error x"
  by (auto simp: fs_makedirs_def os_error_def split: if_splits dest: mkdirs_from_err)

lemma os_makedirs_os_error: "os_makedirs e p w = Inl x \<Longrightarrow> os_error x"
  by (auto simp: os_makedirs_def split: sum.splits dest: fs_makedirs_os_error)

lemma fs_write_os_error: "fs_write e f p t = Inl x \<Longrightarrow> os_error x"
  by (auto simp: fs_write_def os_error_def Let_def split: if_splits option.splits node.splits)

lemma write_text_os_error: "write_text e p t w = Inl x \<Longrightarrow> os_error x"
  by (auto simp: write_text_def split: sum.splits dest: fs_write_os_error)

lemma fs_copy2_os_error: "fs_copy2 e f s d = Inl x \<Longrightarrow> os_error x"
  by (auto simp: fs_copy2_def Let_def os_error_def split: if_splits option.splits node.splits sum.splits
      dest: fs_write_os_error [unfolded os_error_def])

lemma shutil_copy2_os_error: "shutil_copy2 e s d w = Inl x \<Longrightarrow> os_error x"
  by (auto simp: shutil_copy2_def split: sum.splits dest: fs_copy2_os_error)

lemma find_helper_file_Inl:
  "find_helper_file e f name h = Inl x \<Longrightarrow> x = FileNotFoundError (''Could not find required file: '' @ name)"
  by (auto simp: find_helper_file_def Let_def split: option.splits if_splits)

lemma fs_copytree_err:
  assumes "fs_copytree e f src dst = Inl x" and "os_path_isdir e f src" and "dst \<noteq> []"
  shows "x \<noteq> FileNotFoundError m"
proof -
  from assms(2) have st: "os_stat e f src = Some Dir" by (simp add: os_path_isdir_def)
  show ?thesis
  proof (cases "os_path_exists e f dst")
    case True
    with assms(1) st show ?thesis by (simp add: fs_copytree_def)
  next
    case ne: False
    show ?thesis
    proof (cases "strict_prefix (path_key e src) (butlast (path_key e dst))")
      case True
      with assms(1) st ne show ?thesis by (simp add: fs_copytree_def Let_def)
    next
      case False
      with assms(1) st ne have "fs_makedirs e f dst = Inl x"
        by (simp add: fs_copytree_def Let_def split: sum.splits)
      from fs_makedirs_err [OF this assms(3)] show ?thesis by auto
    qed
  qed
qed

lemma stage_err:
  assumes "stage_rerun_dir e d folder name src rerun w = Inl x"
    and "os_path_isdir e (files w) src" and "rerun \<noteq> []"
  shows "x \<noteq> FileNotFoundError m"
proof -
  from assms(1) have "fs_copytree e (files w) src rerun = Inl x"
    by (auto simp: stage_rerun_dir_def Let_def shutil_copytree_def split: if_splits sum.splits)
  from fs_copytree_err [OF this assms(2,3)] show ?thesis .
qed

lemma process_folder_cases:
  assumes "process_folder e sb base sub idx h d folder w = (w', r)"
  obtains
    (no_sub) "\<not> os_path_isdir e (files w) (os_path_join (os_path_join base folder) sub)"
      "w' = py_print (''Skipping '' @ folder @ '': missing subfolder '' @ [SQ] @ sub @ [SQ] @ ''.'') w"
      "r = None"
  | (no_outcar) "os_path_isdir e (files w) (os_path_join (os_path_join base folder) sub)"
      "\<not> os_path_isfile e (files w)
          (os_path_join (os_path_join (os_path_join base folder) sub) ''OUTCAR'')"
      "w' = py_print (''Skipping '' @ folder @ '': missing OUTCAR in '' @ [SQ] @ sub @ [SQ] @ ''.'') w"
      "r = None"
  | (converged) "os_path_isdir e (files w) (os_path_join (os_path_join base folder) sub)"
      "os_path_isfile e (files w)
          (os_path_join (os_path_join (os_path_join base folder) sub) ''OUTCAR'')"
      "is_converged e (files w)
          (os_path_join (os_path_join (os_path_join base folder) sub) ''OUTCAR'')"
      "w' = py_print (''Converged: '' @ folder @ ''/'' @ sub) w"
      "r = None"
  | (stage_failed) x where
      "os_path_isdir e (files w) (os_path_join (os_path_join base folder) sub)"
      "os_path_isfile e (files w)
          (os_path_join (os_path_join (os_path_join base folder) sub) ''OUTCAR'')"
      "\<not> is_converged e (files w)
          (os_path_join (os_path_join (os_path_join base folder) sub) ''OUTCAR'')"
      "stage_rerun_dir e d folder (sub @ ''_run'' @ str_int idx)
         (os_path_join (os_path_join base folder) sub)
         (os_path_join (os_path_join base folder) (sub @ ''_run'' @ str_int idx))
         (py_print (''Not converged: '' @ folder @ ''/'' @ sub @ '' -> creating rerun folder'') w)
       = Inl x"
      "w' = py_print (''Not converged: '' @ folder @ ''/'' @ sub @ '' -> creating rerun folder'') w"
      "r = Some x"
  | (prepared) w2 w3 r3 where
      "os_path_isdir e (files w) (os_path_join (os_path_join base folder) sub)"
      "os_path_isfile e (files w)
          (os_path_join (os_path_join (os_path_join base folder) sub) ''OUTCAR'')"
      "\<not> is_converged e (files w)
          (os_path_join (os_path_join (os_path_join base folder) sub) ''OUTCAR'')"
      "stage_rerun_dir e d folder (sub @ ''_run'' @ str_int idx)
         (os_path_join (os_path_join base folder) sub)
         (os_path_join (os_path_join base folder) (sub @ ''_run'' @ str_int idx))
         (py_print (''Not converged: '' @ folder @ ''/'' @ sub @ '' -> creating rerun folder'') w)
       = Inr w2"
      "prepare_and_submit_rerun e sb (os_path_join (os_path_join base folder) sub)
         (os_path_join (os_path_join base folder) (sub @ ''_run'' @ str_int idx))
         (os_path_join base folder) h False d w2 = (w3, r3)"
      "case r3 of
         None \<Rightarrow> w' = w3 \<and> r = None
       | Some (FileNotFoundError m) \<Rightarrow>
           w' = py_print (''Skipping submission for '' @ folder @ ''/''
                            @ (sub @ ''_run'' @ str_int idx) @ '' due to missing helper file(s).'')
                  (py_print m w3)
           \<and> r = None
       | Some x \<Rightarrow> w' = w3 \<and> r = Some x"
proof (cases "os_path_isdir e (files w) (os_path_join (os_path_join base folder) sub)")
  case False
  show ?thesis
    by (rule no_sub) (use assms False in \<open>auto simp add: process_folder_def Let_def\<close>)
next
  case a1: True
  show ?thesis
  proof (cases "os_path_isfile e (files w)
          (os_path_join (os_path_join (os_path_join base folder) sub) ''OUTCAR'')")
    case False
    show ?thesis
      by (rule no_outcar) (use assms a1 False in \<open>auto simp add: process_folder_def Let_def\<close>)
  next
    case a2: True
    show ?thesis
    proof (cases "is_converged e (files w)
          (os_path_join (os_path_join (os_path_join base folder) sub) ''OUTCAR'')")
      case True
      show ?thesis
        by (rule converged) (use assms a1 a2 True in \<open>auto simp add: process_folder_def Let_def\<close>)
    next
      case a3: False
      show ?thesis
      proof (cases "stage_rerun_dir e d folder (sub @ ''_run'' @ str_int idx)
         (os_path_join (os_path_join base folder) sub)
         (os_path_join (os_path_join base folder) (sub @ ''_run'' @ str_int idx))
         (py_print (''Not converged: '' @ folder @ ''/'' @ sub @ '' -> creating rerun folder'') w)")
        case (Inl x)
        show ?thesis
          by (rule stage_failed [of x])
            (use assms a1 a2 a3 Inl in \<open>auto simp add: process_folder_def Let_def\<close>)
      next
        case a4: (Inr w2)
        obtain w3 r3 where a5: "prepare_and_submit_rerun e sb (os_path_join (os_path_join base folder) sub)
         (os_path_join (os_path_join base folder) (sub @ ''_run'' @ str_int idx))
         (os_path_join base folder) h False d w2 = (w3, r3)"
          by (cases "prepare_and_submit_rerun e sb (os_path_join (os_path_join base folder) sub)
         (os_path_join (os_path_join base folder) (sub @ ''_run'' @ str_int idx))
         (os_path_join base folder) h False d w2") auto
        show ?thesis
          by (rule prepared [of w2 w3 r3])
            (use assms a1 a2 a3 a4 a5 in
              \<open>auto simp add: process_folder_def Let_def split: option.splits error.splits\<close>)
      qed
    qed
  qed
qed

section \<open>Converged trajectories\<close>

text \<open>
  C7: for a trajectory whose calculation folder exists and whose \<^verbatim>\<open>OUTCAR\<close> is
  reported as converged, the round of the loop leaves the file system as it was, so no
  rerun directory is created, nothing is copied and no script is written; all it adds
  to the trace is the one diagnostic that states the convergence, so nothing is
  submitted; and the loop goes on with the next trajectory.
\<close>

theorem converged_untouched:
  assumes "os_path_isdir e (files w) (os_path_join (os_path_join base folder) sub)"
    and "is_converged e (files w)
           (os_path_join (os_path_join (os_path_join base folder) sub) ''OUTCAR'')"
  shows "process_folder e sb base sub idx h d folder w
           = (py_print (''Converged: '' @ folder @ ''/'' @ sub) w, None)
         \<and> files (fst (process_folder e sb base sub idx h d folder w)) = files w
         \<and> new_events w (fst (process_folder e sb base sub idx h d folder w))
             = [Print (''Converged: '' @ folder @ ''/'' @ sub)]
         \<and> process_loop e sb base sub idx h d (folder # rest) w
             = process_loop e sb base sub idx h d rest
                 (py_print (''Converged: '' @ folder @ ''/'' @ sub) w)"
proof -
  from assms(2) have "os_path_isfile e (files w)
           (os_path_join (os_path_join (os_path_join base folder) sub) ''OUTCAR'')"
    by (rule is_converged_isfile)
  with assms have eq: "process_folder e sb base sub idx h d folder w
           = (py_print (''Converged: '' @ folder @ ''/'' @ sub) w, None)"
    by (simp add: process_folder_def Let_def)
  then show ?thesis by (simp add: new_events_def)
qed

theorem converged_untouched_witness:
  "process_folder example_env example_sbatch ''/b'' ''opt'' 1 None False ''trajectory_0''
       (example_world (example_files finished_outcar @ tools_files))
     = (py_print (''Converged: '' @ ''trajectory_0'' @ ''/'' @ ''opt'')
          (example_world (example_files finished_outcar @ tools_files)), None)
   \<and> files (fst (process_folder example_env example_sbatch ''/b'' ''opt'' 1 None False ''trajectory_0''
                   (example_world (example_files finished_outcar @ tools_files))))
       = files (example_world (example_files finished_outcar @ tools_files))
   \<and> new_events (example_world (example_files finished_outcar @ tools_files))
         (fst (process_folder example_env example_sbatch ''/b'' ''opt'' 1 None False ''trajectory_0''
                 (example_world (example_files finished_outcar @ tools_files))))
       = [Print (''Converged: '' @ ''trajectory_0'' @ ''/'' @ ''opt'')]
   \<and> process_loop example_env example_sbatch ''/b'' ''opt'' 1 None False (''trajectory_0'' # [])
         (example_world (example_files finished_outcar @ tools_files))
       = process_loop example_env example_sbatch ''/b'' ''opt'' 1 None False []
           (py_print (''Converged: '' @ ''trajectory_0'' @ ''/'' @ ''opt'')
              (example_world (example_files finished_outcar @ tools_files)))"
proof (rule converged_untouched)
  show "os_path_isdir example_env (files (example_world (example_files finished_outcar @ tools_files)))
          (os_path_join (os_path_join ''/b'' ''trajectory_0'') ''opt'')"
    by code_simp
  show "is_converged example_env (files (example_world (example_files finished_outcar @ tools_files)))
          (os_path_join (os_path_join (os_path_join ''/b'' ''trajectory_0'') ''opt'') ''OUTCAR'')"
    by code_simp
qed

section \<open>A missing helper file\<close>

lemma process_folder_no_fnf:
  assumes "process_folder e sb base sub idx h d folder w = (w', Some x)"
  shows "x \<noteq> FileNotFoundError m"
  using assms
proof (cases rule: process_folder_cases)
  case (stage_failed y)
  have "os_path_join (os_path_join base folder) (sub @ ''_run'' @ str_int idx) \<noteq> []"
    by (rule join_nonempty) simp
  from stage_err [OF stage_failed(4) _ this] stage_failed show ?thesis by simp
next
  case (prepared w2 w3 r3)
  then show ?thesis by (auto split: option.splits error.splits)
qed simp_all

lemma process_loop_no_fnf:
  "process_loop e sb base sub idx h d folders w = (w', Some x) \<Longrightarrow> x \<noteq> FileNotFoundError m"
proof (induction folders arbitrary: w)
  case Nil
  then show ?case by simp
next
  case (Cons folder rest)
  obtain w1 r1 where f: "process_folder e sb base sub idx h d folder w = (w1, r1)"
    by (cases "process_folder e sb base sub idx h d folder w") auto
  show ?case
  proof (cases r1)
    case None
    with f Cons.prems have "process_loop e sb base sub idx h d rest w1 = (w', Some x)" by simp
    then show ?thesis by (rule Cons.IH)
  next
    case (Some y)
    with f Cons.prems have "y = x" by simp
    with f Some process_folder_no_fnf [of e sb base sub idx h d folder w w1 x m] show ?thesis by simp
  qed
qed

text \<open>
  C6: the loop over the trajectory directories never ends with a
  \<^verbatim>\<open>FileNotFoundError\<close>, whatever the folders and the world. When the preparation of
  a rerun raises one, as the helper locator does for a missing helper file, the round
  prints the message of the error and the line that the submission is skipped, and the
  loop goes on with the remaining trajectory directories.
\<close>

theorem missing_helper_continues:
  "snd (process_loop e sb base sub idx h d folders w) \<noteq> Some (FileNotFoundError m)
   \<and> (os_path_isdir e (files w) (os_path_join (os_path_join base folder) sub)
      \<and> os_path_isfile e (files w)
          (os_path_join (os_path_join (os_path_join base folder) sub) ''OUTCAR'')
      \<and> \<not> is_converged e (files w)
          (os_path_join (os_path_join (os_path_join base folder) sub) ''OUTCAR'')
      \<and> stage_rerun_dir e d folder (sub @ ''_run'' @ str_int idx)
         (os_path_join (os_path_join base folder) sub)
         (os_path_join (os_path_join base folder) (sub @ ''_run'' @ str_int idx))
         (py_print (''Not converged: '' @ folder @ ''/'' @ sub @ '' -> creating rerun folder'') w)
       = Inr w2
      \<and> prepare_and_submit_rerun e sb (os_path_join (os_path_join base folder) sub)
         (os_path_join (os_path_join base folder) (sub @ ''_run'' @ str_int idx))
         (os_path_join base folder) h False d w2 = (w3, Some (FileNotFoundError msg))
      \<longrightarrow> process_loop e sb base sub idx h d (folder # rest) w
          = process_loop e sb base sub idx h d rest
              (py_print (''Skipping submission for '' @ folder @ ''/''
                            @ (sub @ ''_run'' @ str_int idx) @ '' due to missing helper file(s).'')
                  (py_print msg w3)))"
proof -
  have a: "snd (process_loop e sb base sub idx h d folders w) \<noteq> Some (FileNotFoundError m)"
    using process_loop_no_fnf [of e sb base sub idx h d folders w _ "FileNotFoundError m" m]
    by (cases "process_loop e sb base sub idx h d folders w") auto
  show ?thesis
    using a by (auto simp add: process_folder_def Let_def)
qed

theorem missing_helper_continues_witness:
  "process_loop example_env example_sbatch ''/b'' ''opt'' 1 None False (''trajectory_0'' # [])
       (example_world (example_files running_outcar))
     = process_loop example_env example_sbatch ''/b'' ''opt'' 1 None False []
         (py_print (''Skipping submission for '' @ ''trajectory_0'' @ ''/''
                      @ (''opt'' @ ''_run'' @ str_int 1) @ '' due to missing helper file(s).'')
            (py_print ''Could not find required file: script_rerun.sh''
               (fst (prepare_and_submit_rerun example_env example_sbatch
                       (os_path_join (os_path_join ''/b'' ''trajectory_0'') ''opt'')
                       (os_path_join (os_path_join ''/b'' ''trajectory_0'') (''opt'' @ ''_run'' @ str_int 1))
                       (os_path_join ''/b'' ''trajectory_0'') None False False
                       (projr (stage_rerun_dir example_env False ''trajectory_0'' (''opt'' @ ''_run'' @ str_int 1)
                          (os_path_join (os_path_join ''/b'' ''trajectory_0'') ''opt'')
                          (os_path_join (os_path_join ''/b'' ''trajectory_0'') (''opt'' @ ''_run'' @ str_int 1))
                          (py_print (''Not converged: '' @ ''trajectory_0'' @ ''/'' @ ''opt''
                                       @ '' -> creating rerun folder'')
                             (example_world (example_files running_outcar)))))))))
   \<and> snd (process_loop example_env example_sbatch ''/b'' ''opt'' 1 None False [''trajectory_0'']
            (example_world (example_files running_outcar)))
       \<noteq> Some (FileNotFoundError ''Could not find required file: script_rerun.sh'')
   \<and> os_path_isdir example_env
         (files (fst (process_loop example_env example_sbatch ''/b'' ''opt'' 1 None False [''trajectory_0'']
            (example_world (example_files running_outcar)))))
         ''/b/trajectory_0/opt_run1''"
proof -
  let ?w = "example_world (example_files running_outcar)"
  let ?st = "stage_rerun_dir example_env False ''trajectory_0'' (''opt'' @ ''_run'' @ str_int 1)
                          (os_path_join (os_path_join ''/b'' ''trajectory_0'') ''opt'')
                          (os_path_join (os_path_join ''/b'' ''trajectory_0'') (''opt'' @ ''_run'' @ str_int 1))
                          (py_print (''Not converged: '' @ ''trajectory_0'' @ ''/'' @ ''opt''
                                       @ '' -> creating rerun folder'') ?w)"
  let ?pr = "prepare_and_submit_rerun example_env example_sbatch
                       (os_path_join (os_path_join ''/b'' ''trajectory_0'') ''opt'')
                       (os_path_join (os_path_join ''/b'' ''trajectory_0'') (''opt'' @ ''_run'' @ str_int 1))
                       (os_path_join ''/b'' ''trajectory_0'') None False False (projr ?st)"
  have a: "os_path_isdir example_env (files ?w) (os_path_join (os_path_join ''/b'' ''trajectory_0'') ''opt'')"
    by code_simp
  have b: "os_path_isfile example_env (files ?w)
          (os_path_join (os_path_join (os_path_join ''/b'' ''trajectory_0'') ''opt'') ''OUTCAR'')"
    by code_simp
  have c: "\<not> is_converged example_env (files ?w)
          (os_path_join (os_path_join (os_path_join ''/b'' ''trajectory_0'') ''opt'') ''OUTCAR'')"
    by code_simp
  have "\<not> isl ?st" by code_simp
  then have d: "?st = Inr (projr ?st)" by simp
  have "snd ?pr = Some (FileNotFoundError ''Could not find required file: script_rerun.sh'')"
    by code_simp
  then have e: "?pr = (fst ?pr, Some (FileNotFoundError ''Could not find required file: script_rerun.sh''))"
    by (metis prod.collapse)
  have f: "os_path_isdir example_env
         (files (fst (process_loop example_env example_sbatch ''/b'' ''opt'' 1 None False [''trajectory_0'']
            ?w))) ''/b/trajectory_0/opt_run1''"
    by code_simp
  from missing_helper_continues [of example_env example_sbatch "''/b''" "''opt''" 1 None False
      "[''trajectory_0'']" ?w "''Could not find required file: script_rerun.sh''" "''trajectory_0''"
      "projr ?st" "fst ?pr" "''Could not find required file: script_rerun.sh''" "[]"]
    a b c d e f
  show ?thesis by blast
qed

section \<open>What a preparation may do\<close>

lemma only_staging:
  assumes "os_makedirs e run w = Inr w1" "os_makedirs e traj w1 = Inr w2"
    "write_text e p t w2 = Inr w3" "P (Makedirs run)" "P (Makedirs traj)" "P (WriteFile p t)"
  shows "only P w w3"
proof -
  have "only P w w1" using assms(1,4) by (rule only_makedirs)
  moreover have "only P w1 w2" using assms(2,5) by (rule only_makedirs)
  moreover have "only P w2 w3" using assms(3,6) by (rule only_write)
  ultimately show ?thesis by (blast intro: only_trans)
qed

lemma prepare_only:
  assumes "prepare_and_submit_rerun e sb src run traj h c d w = (w', r)"
    and mk: "\<And>p. P (Makedirs p)"
    and wr: "\<And>p. P (WriteFile p (submit_contents (os_path_basename run)))"
    and cp: "\<And>s t. P (Copy2 s t)"
    and ch: "\<And>p. P (Chmod p)"
    and pr: "\<And>s. P (Print s)"
    and sb: "\<not> d \<Longrightarrow> P (Sbatch traj)"
  shows "only P w w'"
  using assms(1)
proof (cases rule: prepare_cases)
  case (mk_run x)
  then show ?thesis by (simp add: only_refl)
next
  case (mk_traj w1 x)
  then show ?thesis by (auto intro: only_makedirs mk)
next
  case (wr w1 w2 x)
  then show ?thesis by (auto intro: only_trans only_makedirs mk)
next
  case (helper w1 w2 w3 x)
  then show ?thesis by (auto intro: only_staging mk wr)
next
  case (cp w1 w2 w3 s x)
  then show ?thesis by (auto intro: only_staging mk wr)
next
  case (wr_run w1 w2 w3 s w4 x)
  have "only P w w3" using wr_run by (auto intro: only_staging mk wr)
  moreover have "only P w3 w4" using wr_run by (auto intro: only_copy2 cp)
  ultimately show ?thesis using wr_run by (auto intro: only_trans)
next
  case (cp_run w1 w2 w3 s w4 w5 x)
  have "only P w w3" using cp_run by (auto intro: only_staging mk wr)
  moreover have "only P w3 w4" using cp_run by (auto intro: only_copy2 cp)
  moreover have "only P w4 w5" using cp_run by (auto intro: only_write wr)
  ultimately show ?thesis using cp_run by (auto intro: only_trans)
next
  case (staged w1 w2 w3 s w4 w6)
  have "only P w w3" using staged by (auto intro: only_staging mk wr)
  moreover have "only P w3 w4" using staged by (auto intro: only_copy2 cp)
  moreover have "only P w4 w6"
    using staged(6) by (auto split: if_splits intro: only_refl only_trans only_write only_copy2 wr cp)
  moreover have "only P w6 (chmod_exec e (os_path_join traj ''script_rerun.sh'') w6)"
    by (rule only_chmod) (rule ch)
  moreover have "only P (chmod_exec e (os_path_join traj ''script_rerun.sh'') w6) w'"
  proof (cases d)
    case True
    with staged(7) show ?thesis by (auto intro: only_print pr)
  next
    case False
    with staged(7) have "submit_sbatch sb traj (chmod_exec e (os_path_join traj ''script_rerun.sh'') w6) = (w', r)"
      by simp
    then show ?thesis by (rule only_sbatch) (use False in \<open>auto intro: sb pr\<close>)
  qed
  ultimately show ?thesis by (blast intro: only_trans)
qed



lemma in_new_events:
  assumes "only P w a" and "trace b = trace a @ [ev]" and "only Q b w'"
  shows "ev \<in> set (new_events w w')"
  using assms by (auto simp: only_def new_events_def)

lemma writes_only_mem:
  "list_all (writes_only text) evs \<Longrightarrow> WriteFile p t \<in> set evs \<Longrightarrow> t = text"
  by (auto simp: list_all_iff)

lemma prepare_writes:
  assumes "prepare_and_submit_rerun e sb src run traj h c d w = (w', r)"
  shows "list_all (writes_only (submit_contents (os_path_basename run))) (new_events w w')"
  by (rule only_new_events, rule prepare_only [OF assms]) simp_all

lemma submit_sbatch_no_fnf: "submit_sbatch sb d w = (w', Some x) \<Longrightarrow> x \<noteq> FileNotFoundError m"
proof -
  assume a: "submit_sbatch sb d w = (w', Some x)"
  show ?thesis
  proof (cases "sb w d")
    case (Completed rc out err)
    with a show ?thesis by (simp add: submit_sbatch_def Let_def)
  next
    case (Raised y)
    with a show ?thesis by (cases y) (auto simp: submit_sbatch_def Let_def)
  qed
qed

lemma prepare_both_written:
  assumes "prepare_and_submit_rerun e sb src run traj h True d w = (w', None)"
  shows "WriteFile (os_path_join traj ''01_submit_rerun.py'') (submit_contents (os_path_basename run))
           \<in> set (new_events w w')
         \<and> WriteFile (os_path_join run ''01_submit_rerun.py'') (submit_contents (os_path_basename run))
           \<in> set (new_events w w')"
  using assms
proof (cases rule: prepare_cases)
  case (staged w1 w2 w3 s w4 w6)
  let ?T = "\<lambda>ev::event. True"
  from staged(6) obtain w5 where
    w5: "write_text e (os_path_join run ''01_submit_rerun.py'')
           (submit_contents (os_path_basename run)) w4 = Inr w5"
    and w6: "shutil_copy2 e s (os_path_join run ''script_rerun.sh'') w5 = Inr w6"
    by auto
  have o02: "only ?T w w2"
    using staged(1,2) by (blast intro: only_trans only_makedirs)
  have o34: "only ?T w3 w4" using staged(5) by (rule only_copy2) simp
  have o56: "only ?T w5 w6" using w6 by (rule only_copy2) simp
  have o6: "only ?T w6 w'"
  proof -
    have "only ?T w6 (chmod_exec e (os_path_join traj ''script_rerun.sh'') w6)"
      by (rule only_chmod) simp
    moreover have "only ?T (chmod_exec e (os_path_join traj ''script_rerun.sh'') w6) w'"
    proof (cases d)
      case True
      with staged(7) show ?thesis by (auto intro: only_print)
    next
      case False
      with staged(7) have "submit_sbatch sb traj (chmod_exec e (os_path_join traj ''script_rerun.sh'') w6)
          = (w', None)" by simp
      then show ?thesis by (rule only_sbatch) simp_all
    qed
    ultimately show ?thesis by (rule only_trans)
  qed
  have o5: "only ?T w5 w'" using o56 o6 by (rule only_trans)
  have o45: "only ?T w4 w5" using w5 by (rule only_write) simp
  have o3: "only ?T w3 w'" using o34 o45 o5 by (blast intro: only_trans)
  have o04: "only ?T w w4"
    using o02 o34 staged(3) by (blast intro: only_trans only_write)
  have "WriteFile (os_path_join traj ''01_submit_rerun.py'') (submit_contents (os_path_basename run))
           \<in> set (new_events w w')"
    using o02 _ o3 by (rule in_new_events) (use staged(3) in \<open>simp add: write_text_Inr\<close>)
  moreover have "WriteFile (os_path_join run ''01_submit_rerun.py'') (submit_contents (os_path_basename run))
           \<in> set (new_events w w')"
    using o04 _ o5 by (rule in_new_events) (use w5 in \<open>simp add: write_text_Inr\<close>)
  ultimately show ?thesis by blast
qed simp_all

section \<open>The generated entry-point script\<close>

text \<open>
  C8: every text that \<^verbatim>\<open>prepare_and_submit_rerun\<close> writes is the entry-point script
  for the base name of its \<^verbatim>\<open>run_dir\<close>, a function of that base name alone; so two
  calls whose \<^verbatim>\<open>run_dir\<close> have the same base name write the same text, whatever
  their other arguments and worlds; and a call with \<^verbatim>\<open>copy_to_run_dir\<close> that
  completes has written one and the same text to the script in the trajectory
  directory and to the script in \<^verbatim>\<open>run_dir\<close>.
\<close>

theorem entry_script_by_basename:
  assumes "prepare_and_submit_rerun e sb src run traj h c d w = (w', r)"
    and "prepare_and_submit_rerun e2 sb2 src2 run2 traj2 h2 c2 d2 v = (v', r2)"
    and "os_path_basename run = os_path_basename run2"
  shows "(\<forall>p t. WriteFile p t \<in> set (new_events w w') \<longrightarrow> t = submit_contents (os_path_basename run))
    \<and> (\<forall>p t q u. WriteFile p t \<in> set (new_events w w') \<and> WriteFile q u \<in> set (new_events v v')
          \<longrightarrow> t = u)
    \<and> (c \<and> r = None \<longrightarrow>
          (\<exists>t. WriteFile (os_path_join traj ''01_submit_rerun.py'') t \<in> set (new_events w w')
              \<and> WriteFile (os_path_join run ''01_submit_rerun.py'') t \<in> set (new_events w w')))"
proof -
  note a = prepare_writes [OF assms(1)]
  note b = prepare_writes [OF assms(2)]
  have 1: "\<forall>p t. WriteFile p t \<in> set (new_events w w') \<longrightarrow> t = submit_contents (os_path_basename run)"
    using writes_only_mem [OF a] by blast
  have 2: "\<forall>q u. WriteFile q u \<in> set (new_events v v') \<longrightarrow> u = submit_contents (os_path_basename run)"
    using writes_only_mem [OF b] assms(3) by auto
  have 3: "c \<and> r = None \<longrightarrow>
          (\<exists>t. WriteFile (os_path_join traj ''01_submit_rerun.py'') t \<in> set (new_events w w')
              \<and> WriteFile (os_path_join run ''01_submit_rerun.py'') t \<in> set (new_events w w'))"
  proof
    assume "c \<and> r = None"
    with assms(1) have "prepare_and_submit_rerun e sb src run traj h True d w = (w', None)"
      by simp
    from prepare_both_written [OF this] show "\<exists>t.
        WriteFile (os_path_join traj ''01_submit_rerun.py'') t \<in> set (new_events w w')
        \<and> WriteFile (os_path_join run ''01_submit_rerun.py'') t \<in> set (new_events w w')"
      by blast
  qed
  from 1 2 3 show ?thesis by blast
qed

theorem entry_script_by_basename_witness:
  "(\<exists>t. WriteFile (os_path_join ''/b/trajectory_0'' ''01_submit_rerun.py'') t
          \<in> set (new_events (example_world (example_files running_outcar @ tools_files))
                 (fst (prepare_and_submit_rerun example_env example_sbatch ''/b/trajectory_0/opt''
                         ''/b/trajectory_0/opt_run1'' ''/b/trajectory_0'' None True False
                         (example_world (example_files running_outcar @ tools_files)))))
      \<and> WriteFile (os_path_join ''/b/trajectory_0/opt_run1'' ''01_submit_rerun.py'') t
          \<in> set (new_events (example_world (example_files running_outcar @ tools_files))
                 (fst (prepare_and_submit_rerun example_env example_sbatch ''/b/trajectory_0/opt''
                         ''/b/trajectory_0/opt_run1'' ''/b/trajectory_0'' None True False
                         (example_world (example_files running_outcar @ tools_files)))))
      \<and> t = submit_contents (os_path_basename ''/b/trajectory_0/opt_run1''))
   \<and> os_path_basename ''/b/trajectory_0/opt_run1'' = os_path_basename ''/work/opt_run1''"
proof -
  let ?w = "example_world (example_files running_outcar @ tools_files)"
  let ?p = "prepare_and_submit_rerun example_env example_sbatch ''/b/trajectory_0/opt''
              ''/b/trajectory_0/opt_run1'' ''/b/trajectory_0'' None True False ?w"
  let ?q = "prepare_and_submit_rerun example_env example_sbatch ''/work''
              ''/work/opt_run1'' ''/work'' (Some ''/opt/tools'') False True ?w"
  have a: "?p = (fst ?p, snd ?p)" by simp
  have b: "?q = (fst ?q, snd ?q)" by simp
  have c: "os_path_basename ''/b/trajectory_0/opt_run1'' = os_path_basename ''/work/opt_run1''"
    by code_simp
  have d: "snd ?p = None" by code_simp
  from entry_script_by_basename [OF a b c] d c show ?thesis by blast
qed

section \<open>The failure for a missing submission script\<close>

text \<open>
  C9: when \<^verbatim>\<open>prepare_and_submit_rerun\<close> ends with the helper locator's
  \<^verbatim>\<open>FileNotFoundError\<close> for \<^verbatim>\<open>script_rerun.sh\<close>, it has by then created
  \<^verbatim>\<open>run_dir\<close> and the trajectory directory and written the entry-point script into the
  trajectory directory, and only then looked for the helper: both directories exist,
  the script holds the generated text, these three effects are all the call did, and
  the file system differs from the one before unless the script was there already with
  the same text.
\<close>

theorem missing_helper_not_atomic:
  assumes "prepare_and_submit_rerun e sb src run traj h c d w
             = (w', Some (FileNotFoundError (''Could not find required file: '' @ ''script_rerun.sh'')))"
  shows "os_path_isdir e (files w') run
    \<and> os_path_isdir e (files w') traj
    \<and> open_read e (files w') (os_path_join traj ''01_submit_rerun.py'')
        = Inr (submit_contents (os_path_basename run))
    \<and> new_events w w'
        = [Makedirs run, Makedirs traj,
           WriteFile (os_path_join traj ''01_submit_rerun.py'') (submit_contents (os_path_basename run))]
    \<and> find_helper_file e (files w') ''script_rerun.sh'' h
        = Inl (FileNotFoundError (''Could not find required file: '' @ ''script_rerun.sh''))
    \<and> (open_read e (files w) (os_path_join traj ''01_submit_rerun.py'')
          \<noteq> Inr (submit_contents (os_path_basename run)) \<longrightarrow> files w' \<noteq> files w)"
  using assms
proof (cases rule: prepare_cases)
  case (mk_run x)
  with os_makedirs_os_error [of e run w x] os_error_not_helper show ?thesis by blast
next
  case (mk_traj w1 x)
  with os_makedirs_os_error [of e traj w1 x] os_error_not_helper show ?thesis by blast
next
  case (wr w1 w2 x)
  with write_text_os_error [OF wr(3)] os_error_not_helper show ?thesis by blast
next
  case (helper w1 w2 w3 x)
  from os_makedirs_Inr [OF helper(1)] have m1: "fs_makedirs e (files w) run = Inr (files w1)"
    and t1: "trace w1 = trace w @ [Makedirs run]" by auto
  from os_makedirs_Inr [OF helper(2)] have m2: "fs_makedirs e (files w1) traj = Inr (files w2)"
    and t2: "trace w2 = trace w1 @ [Makedirs traj]" by auto
  from write_text_Inr [OF helper(3)] have m3: "fs_write e (files w2) (os_path_join traj ''01_submit_rerun.py'')
      (submit_contents (os_path_basename run)) = Inr (files w3)"
    and t3: "trace w3 = trace w2 @ [WriteFile (os_path_join traj ''01_submit_rerun.py'')
      (submit_contents (os_path_basename run))]" by auto
  have "os_path_isdir e (files w1) run" using m1 by (rule fs_makedirs_isdir)
  then have "os_path_isdir e (files w2) run"
    using fs_makedirs_keeps [OF m2] by (simp add: os_path_isdir_def)
  then have d1: "os_path_isdir e (files w3) run" using m3 fs_write_keeps_dir by blast
  have "os_path_isdir e (files w2) traj" using m2 by (rule fs_makedirs_isdir)
  then have d2: "os_path_isdir e (files w3) traj" using m3 fs_write_keeps_dir by blast
  have rd: "open_read e (files w3) (os_path_join traj ''01_submit_rerun.py'')
        = Inr (submit_contents (os_path_basename run))"
    using m3 by (rule fs_write_read)
  have ev: "new_events w w3 = [Makedirs run, Makedirs traj,
           WriteFile (os_path_join traj ''01_submit_rerun.py'') (submit_contents (os_path_basename run))]"
    by (simp add: new_events_def t1 t2 t3)
  have ch: "open_read e (files w) (os_path_join traj ''01_submit_rerun.py'')
          \<noteq> Inr (submit_contents (os_path_basename run)) \<longrightarrow> files w3 \<noteq> files w"
    using rd by auto
  from helper(4,5,6) d1 d2 rd ev ch show ?thesis by simp
next
  case (cp w1 w2 w3 s x)
  with shutil_copy2_os_error [OF cp(5)] os_error_not_helper show ?thesis by blast
next
  case (wr_run w1 w2 w3 s w4 x)
  with write_text_os_error [OF wr_run(7)] os_error_not_helper show ?thesis by blast
next
  case (cp_run w1 w2 w3 s w4 w5 x)
  with shutil_copy2_os_error [OF cp_run(8)] os_error_not_helper show ?thesis by blast
next
  case (staged w1 w2 w3 s w4 w6)
  show ?thesis
  proof (cases d)
    case True
    with staged(7) show ?thesis by simp
  next
    case False
    with staged(7) submit_sbatch_no_fnf show ?thesis by (metis)
  qed
qed

theorem missing_helper_not_atomic_witness:
  "os_path_isdir example_env
      (files (fst (prepare_and_submit_rerun example_env example_sbatch ''/b/trajectory_0/opt''
                     ''/b/trajectory_0/opt_run1'' ''/b/trajectory_0'' None False False
                     (example_world (example_files running_outcar)))))
      ''/b/trajectory_0/opt_run1''
   \<and> \<not> os_path_exists example_env (files (example_world (example_files running_outcar)))
         ''/b/trajectory_0/opt_run1''
   \<and> open_read example_env
        (files (fst (prepare_and_submit_rerun example_env example_sbatch ''/b/trajectory_0/opt''
                     ''/b/trajectory_0/opt_run1'' ''/b/trajectory_0'' None False False
                     (example_world (example_files running_outcar)))))
        (os_path_join ''/b/trajectory_0'' ''01_submit_rerun.py'')
       = Inr (submit_contents (os_path_basename ''/b/trajectory_0/opt_run1''))
   \<and> files (fst (prepare_and_submit_rerun example_env example_sbatch ''/b/trajectory_0/opt''
                     ''/b/trajectory_0/opt_run1'' ''/b/trajectory_0'' None False False
                     (example_world (example_files running_outcar))))
       \<noteq> files (example_world (example_files running_outcar))"
proof -
  let ?w = "example_world (example_files running_outcar)"
  let ?p = "prepare_and_submit_rerun example_env example_sbatch ''/b/trajectory_0/opt''
              ''/b/trajectory_0/opt_run1'' ''/b/trajectory_0'' None False False ?w"
  have "snd ?p = Some (FileNotFoundError (''Could not find required file: '' @ ''script_rerun.sh''))"
    by code_simp
  then have a: "?p = (fst ?p,
      Some (FileNotFoundError (''Could not find required file: '' @ ''script_rerun.sh'')))"
    by (metis prod.collapse)
  have b: "open_read example_env (files ?w) (os_path_join ''/b/trajectory_0'' ''01_submit_rerun.py'')
          \<noteq> Inr (submit_contents (os_path_basename ''/b/trajectory_0/opt_run1''))"
    by code_simp
  have c: "\<not> os_path_exists example_env (files ?w) ''/b/trajectory_0/opt_run1''"
    by code_simp
  from missing_helper_not_atomic [OF a] b c show ?thesis by blast
qed

section \<open>Splitting a name at its underscores\<close>

lemma split_on_no_sep: "c \<notin> set s \<Longrightarrow> split_on c s = [s]"
  by (induction s) auto

lemma split_on_sep_last:
  "c \<notin> set s \<Longrightarrow> \<exists>w ws. split_on c (pre @ c # s) = w # ws \<and> ws \<noteq> [] \<and> last ws = s"
  by (induction pre) (auto simp: split_on_no_sep split: list.splits)

lemma last_split_on: "c \<notin> set s \<Longrightarrow> last (split_on c (pre @ c # s)) = s"
  using split_on_sep_last [of c s pre] by auto

lemma suffix_key_last:
  "CHR ''_'' \<notin> set s \<Longrightarrow> suffix_key (pre @ ''_'' @ s) = suffix_key s"
  using last_split_on [of "CHR ''_''" s pre] split_on_no_sep [of "CHR ''_''" s]
  by (simp add: suffix_key_def)

lemma suffix_key_plain:
  "CHR ''_'' \<notin> set s \<Longrightarrow>
   suffix_key s = (if py_isdigit s
                   then (case int_of_digits s of Inl err \<Rightarrow> Inl err | Inr n \<Rightarrow> Inr (enat n))
                   else Inr \<infinity>)"
  using split_on_no_sep [of "CHR ''_''" s] by (simp add: suffix_key_def)

lemma py_sorted_set: 
  fixes key :: "'a \<Rightarrow> error + enat"
  shows "py_sorted key xs = Inr order \<Longrightarrow> set order = set xs"
  using py_sorted_Inr(2) [of key xs order] by (metis set_mset_mset)

section \<open>The selection of the trajectory directories\<close>

text \<open>
  C10: the directories the loop visits are exactly the entries of the base folder that
  are directories and whose names start with \<^verbatim>\<open>trajectory_\<close>, each as often as it is
  listed: nothing asks for a number after the prefix, so \<^verbatim>\<open>trajectory_abc\<close> and
  \<^verbatim>\<open>trajectory_\<close> are selected too, with the key infinity. The key of a name is that
  of its last component between underscores alone, so \<^verbatim>\<open>trajectory_3_12\<close> has the key
  12. The selection returns whenever the listing does and no key raises.
\<close>

theorem trajectory_dirs_selection:
  "(os_listdir e f base = Inr names \<and> trajectory_dirs e f base = Inr dirs \<longrightarrow>
      set dirs = {d \<in> set names. os_path_isdir e f (os_path_join base d) \<and> prefix ''trajectory_'' d}
      \<and> mset dirs = mset (filter (\<lambda>d. os_path_isdir e f (os_path_join base d)
                                        \<and> prefix ''trajectory_'' d) names))
   \<and> (os_listdir e f base = Inr names \<and> (\<forall>d \<in> set names. suffix_key d \<noteq> Inl ValueError) \<longrightarrow>
        (\<exists>dirs. trajectory_dirs e f base = Inr dirs))
   \<and> (CHR ''_'' \<notin> set s \<longrightarrow>
        suffix_key (pre @ ''_'' @ s) = suffix_key s
        \<and> suffix_key s = (if py_isdigit s
                          then (case int_of_digits s of Inl err \<Rightarrow> Inl err | Inr n \<Rightarrow> Inr (enat n))
                          else Inr \<infinity>))
   \<and> suffix_key ''trajectory_abc'' = Inr \<infinity>
   \<and> suffix_key ''trajectory_'' = Inr \<infinity>
   \<and> suffix_key ''trajectory_3_12'' = Inr (enat 12)"
proof -
  let ?sel = "\<lambda>d. os_path_isdir e f (os_path_join base d) \<and> startswith d ''trajectory_''"
  have 1: "os_listdir e f base = Inr names \<and> trajectory_dirs e f base = Inr dirs \<longrightarrow>
      set dirs = {d \<in> set names. os_path_isdir e f (os_path_join base d) \<and> prefix ''trajectory_'' d}
      \<and> mset dirs = mset (filter (\<lambda>d. os_path_isdir e f (os_path_join base d)
                                        \<and> prefix ''trajectory_'' d) names)"
  proof
    assume a: "os_listdir e f base = Inr names \<and> trajectory_dirs e f base = Inr dirs"
    then have s: "py_sorted suffix_key (filter ?sel names) = Inr dirs"
      by (auto simp: trajectory_dirs_def)
    from py_sorted_Inr(2) [OF s] py_sorted_set [OF s]
    show "set dirs = {d \<in> set names. os_path_isdir e f (os_path_join base d) \<and> prefix ''trajectory_'' d}
      \<and> mset dirs = mset (filter (\<lambda>d. os_path_isdir e f (os_path_join base d)
                                        \<and> prefix ''trajectory_'' d) names)"
      by (auto simp: startswith_prefix)
  qed
  have 2: "os_listdir e f base = Inr names \<and> (\<forall>d \<in> set names. suffix_key d \<noteq> Inl ValueError) \<longrightarrow>
        (\<exists>dirs. trajectory_dirs e f base = Inr dirs)"
  proof
    assume a: "os_listdir e f base = Inr names \<and> (\<forall>d \<in> set names. suffix_key d \<noteq> Inl ValueError)"
    show "\<exists>dirs. trajectory_dirs e f base = Inr dirs"
    proof (cases "py_sorted suffix_key (filter ?sel names)")
      case (Inl err)
      from py_sorted_Inl [OF Inl] obtain x where "x \<in> set names" "suffix_key x = Inl err" by auto
      with suffix_key_Inl [of x err] a show ?thesis by auto
    next
      case (Inr order)
      with a show ?thesis by (auto simp: trajectory_dirs_def)
    qed
  qed
  have 3: "CHR ''_'' \<notin> set s \<longrightarrow>
        suffix_key (pre @ ''_'' @ s) = suffix_key s
        \<and> suffix_key s = (if py_isdigit s
                          then (case int_of_digits s of Inl err \<Rightarrow> Inl err | Inr n \<Rightarrow> Inr (enat n))
                          else Inr \<infinity>)"
    using suffix_key_last [of s pre] suffix_key_plain [of s] by blast
  have 4: "suffix_key ''trajectory_abc'' = Inr \<infinity>" by code_simp
  have 5: "suffix_key ''trajectory_'' = Inr \<infinity>" by code_simp
  have 6: "suffix_key ''trajectory_3_12'' = Inr (enat 12)" by code_simp
  from 1 2 3 4 5 6 show ?thesis by blast
qed

theorem trajectory_dirs_selection_witness:
  "trajectory_dirs example_env mixed_files ''/b''
     = Inr [''trajectory_1_7'', ''trajectory_10'', ''trajectory_abc'', ''trajectory_'']
   \<and> set [''trajectory_1_7'', ''trajectory_10'', ''trajectory_abc'', ''trajectory_'']
     = {d \<in> set [''trajectory_10'', ''trajectory_abc'', ''trajectory_'', ''trajectory_1_7'', ''traj_5'',
                  ''trajectory_9''].
          os_path_isdir example_env mixed_files (os_path_join ''/b'' d) \<and> prefix ''trajectory_'' d}
   \<and> suffix_key (''trajectory_1'' @ ''_'' @ ''7'') = suffix_key ''7''"
proof -
  have a: "os_listdir example_env mixed_files ''/b''
      = Inr [''trajectory_10'', ''trajectory_abc'', ''trajectory_'', ''trajectory_1_7'', ''traj_5'',
             ''trajectory_9'']"
    by code_simp
  have b: "trajectory_dirs example_env mixed_files ''/b''
     = Inr [''trajectory_1_7'', ''trajectory_10'', ''trajectory_abc'', ''trajectory_'']"
    by code_simp
  have c: "CHR ''_'' \<notin> set ''7''" by simp
  from trajectory_dirs_selection [of example_env mixed_files "''/b''"
      "[''trajectory_10'', ''trajectory_abc'', ''trajectory_'', ''trajectory_1_7'', ''traj_5'',
             ''trajectory_9'']"
      "[''trajectory_1_7'', ''trajectory_10'', ''trajectory_abc'', ''trajectory_'']" "''7''"
      "''trajectory_1''"] a b c
  show ?thesis by blast
qed

section \<open>Dry runs\<close>

lemma stage_dry_only:
  assumes "stage_rerun_dir e True folder name src rerun w = Inr w2"
  shows "only no_copy_no_submit w w2"
proof -
  from assms obtain s where "w2 = py_print s w"
    by (auto simp: stage_rerun_dir_def Let_def split: if_splits)
  then show ?thesis by (simp add: only_print no_copy_no_submit_def)
qed

lemma prepare_dry_only:
  assumes "prepare_and_submit_rerun e sb src run traj h c True w = (w', r)"
  shows "only no_copy_no_submit w w'"
  by (rule prepare_only [OF assms]) (simp_all add: no_copy_no_submit_def)

lemma process_folder_dry_only:
  assumes "process_folder e sb base sub idx h True folder w = (w', r)"
  shows "only no_copy_no_submit w w'"
  using assms
proof (cases rule: process_folder_cases)
  case no_sub
  then show ?thesis by (simp add: only_print no_copy_no_submit_def)
next
  case no_outcar
  then show ?thesis by (simp add: only_print no_copy_no_submit_def)
next
  case converged
  then show ?thesis by (simp add: only_print no_copy_no_submit_def)
next
  case (stage_failed x)
  then show ?thesis by (simp add: only_print no_copy_no_submit_def)
next
  case (prepared w2 w3 r3)
  have p: "\<And>s v. only no_copy_no_submit v (py_print s v)"
    by (simp add: only_print no_copy_no_submit_def)
  have "only no_copy_no_submit w w2"
    using p stage_dry_only [OF prepared(4)] by (blast intro: only_trans)
  moreover have "only no_copy_no_submit w2 w3"
    using prepared(5) by (rule prepare_dry_only)
  moreover have "only no_copy_no_submit w3 w'"
    using prepared(6) p by (auto split: option.splits error.splits intro: only_refl only_trans)
  ultimately show ?thesis by (blast intro: only_trans)
qed

lemma process_loop_dry_only:
  "process_loop e sb base sub idx h True folders w = (w', r) \<Longrightarrow> only no_copy_no_submit w w'"
proof (induction folders arbitrary: w)
  case Nil
  then show ?case by (simp add: only_refl)
next
  case (Cons folder rest)
  obtain w1 r1 where f: "process_folder e sb base sub idx h True folder w = (w1, r1)"
    by (cases "process_folder e sb base sub idx h True folder w") auto
  note a = process_folder_dry_only [OF f]
  show ?case
  proof (cases r1)
    case None
    with f Cons.prems have "process_loop e sb base sub idx h True rest w1 = (w', r)" by simp
    from a Cons.IH [OF this] show ?thesis by (rule only_trans)
  next
    case (Some x)
    with f Cons.prems a show ?thesis by simp
  qed
qed

lemma prepare_dry_last:
  assumes "prepare_and_submit_rerun e sb src run traj h c True w = (w', None)"
  shows "last (trace w') = Print (''[DRY-RUN] Would submit: sbatch script_rerun.sh (cwd='' @ traj @ '')'')"
  using assms by (cases rule: prepare_cases) simp_all

lemma idle_round:
  assumes "\<not> needs_rerun e (files w) base sub folder"
  shows "\<exists>s. \<forall>d. process_folder e sb base sub idx h d folder w = (py_print s w, None)"
  using assms by (auto simp: needs_rerun_def process_folder_def Let_def)

lemma idle_loop:
  "\<forall>folder \<in> set folders. \<not> needs_rerun e (files w) base sub folder \<Longrightarrow>
   process_loop e sb base sub idx h True folders w = process_loop e sb base sub idx h False folders w"
proof (induction folders arbitrary: w)
  case Nil
  show ?case by simp
next
  case (Cons folder rest)
  from Cons.prems have "\<not> needs_rerun e (files w) base sub folder" by simp
  from idle_round [OF this] obtain s where
    s: "\<And>d. process_folder e sb base sub idx h d folder w = (py_print s w, None)" by blast
  have "\<forall>folder \<in> set rest. \<not> needs_rerun e (files (py_print s w)) base sub folder"
    using Cons.prems by simp
  from Cons.IH [OF this] show ?case by (simp add: s)
qed

lemma dry_round:
  assumes "process_folder e sb base sub idx h True folder w = (w', r)"
    and "needs_rerun e (files w) base sub folder"
  shows "take 2 (new_events w w')
           = [Print (''Not converged: '' @ folder @ ''/'' @ sub @ '' -> creating rerun folder''),
              Print (if os_path_exists e (files w)
                          (os_path_join (os_path_join base folder) (sub @ ''_run'' @ str_int idx))
                     then ''Rerun folder already exists: '' @ folder @ ''/''
                            @ (sub @ ''_run'' @ str_int idx) @ ''. Will reuse it.''
                     else ''[DRY-RUN] Would copy folder: ''
                            @ os_path_join (os_path_join base folder) sub @ '' -> ''
                            @ os_path_join (os_path_join base folder) (sub @ ''_run'' @ str_int idx))]
         \<and> (r = None \<longrightarrow>
               last (trace w')
                 = Print (''[DRY-RUN] Would submit: sbatch script_rerun.sh (cwd=''
                            @ os_path_join base folder @ '')'')
               \<or> last (trace w')
                 = Print (''Skipping submission for '' @ folder @ ''/''
                            @ (sub @ ''_run'' @ str_int idx) @ '' due to missing helper file(s).''))"
  using assms(1)
proof (cases rule: process_folder_cases)
  case no_sub
  with assms(2) show ?thesis by (simp add: needs_rerun_def Let_def)
next
  case no_outcar
  with assms(2) show ?thesis by (simp add: needs_rerun_def Let_def)
next
  case converged
  with assms(2) show ?thesis by (simp add: needs_rerun_def Let_def)
next
  case (stage_failed x)
  then show ?thesis by (simp add: stage_rerun_dir_def Let_def split: if_splits)
next
  case (prepared w2 w3 r3)
  let ?nc = "Print (''Not converged: '' @ folder @ ''/'' @ sub @ '' -> creating rerun folder'')"
  let ?st = "Print (if os_path_exists e (files w)
                          (os_path_join (os_path_join base folder) (sub @ ''_run'' @ str_int idx))
                     then ''Rerun folder already exists: '' @ folder @ ''/''
                            @ (sub @ ''_run'' @ str_int idx) @ ''. Will reuse it.''
                     else ''[DRY-RUN] Would copy folder: ''
                            @ os_path_join (os_path_join base folder) sub @ '' -> ''
                            @ os_path_join (os_path_join base folder) (sub @ ''_run'' @ str_int idx))"
  from prepared(4) have t2: "trace w2 = trace w @ [?nc, ?st]"
    by (auto simp: stage_rerun_dir_def Let_def split: if_splits)
  have "only (\<lambda>ev. True) w2 w3" by (rule prepare_only [OF prepared(5)]) simp_all
  then obtain evs where t3: "trace w3 = trace w2 @ evs" unfolding only_def by blast
  have "\<exists>evs'. trace w' = trace w3 @ evs'"
    using prepared(6) by (auto split: option.splits error.splits)
  then obtain evs' where t': "trace w' = trace w @ [?nc, ?st] @ evs @ evs'"
    using t2 t3 by auto
  then have a: "take 2 (new_events w w') = [?nc, ?st]"
    by (simp add: new_events_def)
  have b: "r = None \<longrightarrow>
               last (trace w')
                 = Print (''[DRY-RUN] Would submit: sbatch script_rerun.sh (cwd=''
                            @ os_path_join base folder @ '')'')
               \<or> last (trace w')
                 = Print (''Skipping submission for '' @ folder @ ''/''
                            @ (sub @ ''_run'' @ str_int idx) @ '' due to missing helper file(s).'')"
  proof (cases r3)
    case None
    with prepared(5,6) prepare_dry_last [of e sb _ _ "os_path_join base folder" h False w2 w3]
    show ?thesis by simp
  next
    case (Some x)
    with prepared(6) show ?thesis by (cases x) auto
  qed
  from a b show ?thesis by blast
qed

text \<open>
  C2 (amended): in a dry run of \<^verbatim>\<open>process\<close> no folder is copied and the scheduler is
  never called, whatever the base folder holds and however the run ends. When no
  trajectory directory needs a rerun, the dry run is the live run, diagnostics
  included. In a round for a trajectory that needs one, the dry run prints the line
  that it is not converged and then, when the rerun folder is not there yet, the line
  that it would copy the calculation folder to it; and when the round ends without an
  error, its last line is the one that it would submit, or the one that the submission
  is skipped for a missing helper file.
\<close>

theorem dry_run_no_copy_no_submit:
  "(process e sb base sub idx h True w = (w', r) \<longrightarrow>
      list_all (\<lambda>ev. \<not> is_copytree ev \<and> \<not> is_sbatch ev) (new_events w w'))
   \<and> ((\<forall>dirs. trajectory_dirs e (files w) base = Inr dirs \<longrightarrow>
           (\<forall>folder \<in> set dirs. \<not> needs_rerun e (files w) base sub folder)) \<longrightarrow>
        process e sb base sub idx h True w = process e sb base sub idx h False w)
   \<and> (needs_rerun e (files w) base sub folder
        \<and> process_folder e sb base sub idx h True folder w = (w', r) \<longrightarrow>
        take 2 (new_events w w')
           = [Print (''Not converged: '' @ folder @ ''/'' @ sub @ '' -> creating rerun folder''),
              Print (if os_path_exists e (files w)
                          (os_path_join (os_path_join base folder) (sub @ ''_run'' @ str_int idx))
                     then ''Rerun folder already exists: '' @ folder @ ''/''
                            @ (sub @ ''_run'' @ str_int idx) @ ''. Will reuse it.''
                     else ''[DRY-RUN] Would copy folder: ''
                            @ os_path_join (os_path_join base folder) sub @ '' -> ''
                            @ os_path_join (os_path_join base folder) (sub @ ''_run'' @ str_int idx))]
        \<and> (r = None \<longrightarrow>
               last (trace w')
                 = Print (''[DRY-RUN] Would submit: sbatch script_rerun.sh (cwd=''
                            @ os_path_join base folder @ '')'')
               \<or> last (trace w')
                 = Print (''Skipping submission for '' @ folder @ ''/''
                            @ (sub @ ''_run'' @ str_int idx) @ '' due to missing helper file(s).'')))"
proof -
  have 1: "process e sb base sub idx h True w = (w', r) \<longrightarrow>
      list_all (\<lambda>ev. \<not> is_copytree ev \<and> \<not> is_sbatch ev) (new_events w w')"
  proof
    assume a: "process e sb base sub idx h True w = (w', r)"
    have "only no_copy_no_submit w w'"
    proof (cases "trajectory_dirs e (files w) base")
      case (Inl x)
      with a show ?thesis by (simp add: process_def only_refl)
    next
      case (Inr dirs)
      with a have "process_loop e sb base sub idx h True dirs w = (w', r)"
        by (simp add: process_def)
      then show ?thesis by (rule process_loop_dry_only)
    qed
    from only_new_events [OF this]
    show "list_all (\<lambda>ev. \<not> is_copytree ev \<and> \<not> is_sbatch ev) (new_events w w')"
      by (simp add: list_all_iff no_copy_no_submit_def)
  qed
  have 2: "(\<forall>dirs. trajectory_dirs e (files w) base = Inr dirs \<longrightarrow>
           (\<forall>folder \<in> set dirs. \<not> needs_rerun e (files w) base sub folder)) \<longrightarrow>
        process e sb base sub idx h True w = process e sb base sub idx h False w"
  proof
    assume a: "\<forall>dirs. trajectory_dirs e (files w) base = Inr dirs \<longrightarrow>
           (\<forall>folder \<in> set dirs. \<not> needs_rerun e (files w) base sub folder)"
    show "process e sb base sub idx h True w = process e sb base sub idx h False w"
    proof (cases "trajectory_dirs e (files w) base")
      case (Inl x)
      then show ?thesis by (simp add: process_def)
    next
      case (Inr dirs)
      with a have "\<forall>folder \<in> set dirs. \<not> needs_rerun e (files w) base sub folder" by blast
      from idle_loop [OF this] Inr show ?thesis by (simp add: process_def)
    qed
  qed
  from 1 2 dry_round [of e sb base sub idx h folder w w' r] show ?thesis by blast
qed

theorem dry_run_no_copy_no_submit_witness:
  "list_all (\<lambda>ev. \<not> is_copytree ev \<and> \<not> is_sbatch ev)
     (new_events (example_world (example_files running_outcar @ tools_files))
        (fst (process example_env example_sbatch ''/b'' ''opt'' 1 None True
                (example_world (example_files running_outcar @ tools_files)))))
   \<and> process example_env example_sbatch ''/b'' ''opt'' 1 None True
         (example_world (example_files finished_outcar @ tools_files))
     = process example_env example_sbatch ''/b'' ''opt'' 1 None False
         (example_world (example_files finished_outcar @ tools_files))
   \<and> printed (new_events (example_world (example_files running_outcar @ tools_files))
        (fst (process_folder example_env example_sbatch ''/b'' ''opt'' 1 None True ''trajectory_0''
                (example_world (example_files running_outcar @ tools_files)))))
     = [''Not converged: trajectory_0/opt -> creating rerun folder'',
        ''[DRY-RUN] Would copy folder: /b/trajectory_0/opt -> /b/trajectory_0/opt_run1'',
        ''[DRY-RUN] Would submit: sbatch script_rerun.sh (cwd=/b/trajectory_0)'']
   \<and> take 2 (new_events (example_world (example_files running_outcar @ tools_files))
        (fst (process_folder example_env example_sbatch ''/b'' ''opt'' 1 None True ''trajectory_0''
                (example_world (example_files running_outcar @ tools_files)))))
     = [Print (''Not converged: '' @ ''trajectory_0'' @ ''/'' @ ''opt'' @ '' -> creating rerun folder''),
        Print (''[DRY-RUN] Would copy folder: ''
                 @ os_path_join (os_path_join ''/b'' ''trajectory_0'') ''opt'' @ '' -> ''
                 @ os_path_join (os_path_join ''/b'' ''trajectory_0'') (''opt'' @ ''_run'' @ str_int 1))]"
proof -
  let ?w = "example_world (example_files running_outcar @ tools_files)"
  let ?v = "example_world (example_files finished_outcar @ tools_files)"
  let ?p = "process example_env example_sbatch ''/b'' ''opt'' 1 None True ?w"
  let ?f = "process_folder example_env example_sbatch ''/b'' ''opt'' 1 None True ''trajectory_0'' ?w"
  have a: "?p = (fst ?p, snd ?p)" by simp
  have 1: "list_all (\<lambda>ev. \<not> is_copytree ev \<and> \<not> is_sbatch ev) (new_events ?w (fst ?p))"
    using dry_run_no_copy_no_submit [where e = example_env and sb = example_sbatch and base = "''/b''"
        and sub = "''opt''" and idx = 1 and h = None and w = ?w and w' = "fst ?p" and r = "snd ?p"] a
    by blast
  have b: "trajectory_dirs example_env (files ?v) ''/b'' = Inr [''trajectory_0'']"
    by code_simp
  have c: "\<not> needs_rerun example_env (files ?v) ''/b'' ''opt'' ''trajectory_0''"
    by code_simp
  have 2: "process example_env example_sbatch ''/b'' ''opt'' 1 None True ?v
             = process example_env example_sbatch ''/b'' ''opt'' 1 None False ?v"
    using dry_run_no_copy_no_submit [where e = example_env and sb = example_sbatch and base = "''/b''"
        and sub = "''opt''" and idx = 1 and h = None and w = ?v] b c
    by simp
  have d: "needs_rerun example_env (files ?w) ''/b'' ''opt'' ''trajectory_0''"
    by code_simp
  have e: "\<not> os_path_exists example_env (files ?w)
               (os_path_join (os_path_join ''/b'' ''trajectory_0'') (''opt'' @ ''_run'' @ str_int 1))"
    by code_simp
  have f: "?f = (fst ?f, snd ?f)" by simp
  have 3: "take 2 (new_events ?w (fst ?f))
     = [Print (''Not converged: '' @ ''trajectory_0'' @ ''/'' @ ''opt'' @ '' -> creating rerun folder''),
        Print (''[DRY-RUN] Would copy folder: ''
                 @ os_path_join (os_path_join ''/b'' ''trajectory_0'') ''opt'' @ '' -> ''
                 @ os_path_join (os_path_join ''/b'' ''trajectory_0'') (''opt'' @ ''_run'' @ str_int 1))]"
    using dry_run_no_copy_no_submit [where e = example_env and sb = example_sbatch and base = "''/b''"
        and sub = "''opt''" and idx = 1 and h = None and w = ?w and folder = "''trajectory_0''"
        and w' = "fst ?f" and r = "snd ?f"] d e f
    by simp
  have 4: "printed (new_events ?w (fst ?f))
     = [''Not converged: trajectory_0/opt -> creating rerun folder'',
        ''[DRY-RUN] Would copy folder: /b/trajectory_0/opt -> /b/trajectory_0/opt_run1'',
        ''[DRY-RUN] Would submit: sbatch script_rerun.sh (cwd=/b/trajectory_0)'']"
    by code_simp
  from 1 2 3 4 show ?thesis by blast
qed

text \<open>
  As the specification words it the claim fails: in the example world the dry run
  creates the rerun folder, which was not there before, through the
  \<^verbatim>\<open>os.makedirs\<close> at the start of \<^verbatim>\<open>prepare_and_submit_rerun\<close>, and what it prints
  differs from what the live run prints.
\<close>

theorem dry_run_creates_directory:
  "\<not> os_path_exists example_env (files (example_world (example_files running_outcar @ tools_files)))
       ''/b/trajectory_0/opt_run1''
   \<and> os_path_isdir example_env
        (files (fst (process example_env example_sbatch ''/b'' ''opt'' 1 None True
                       (example_world (example_files running_outcar @ tools_files)))))
        ''/b/trajectory_0/opt_run1''
   \<and> Makedirs ''/b/trajectory_0/opt_run1''
        \<in> set (trace (fst (process example_env example_sbatch ''/b'' ''opt'' 1 None True
                       (example_world (example_files running_outcar @ tools_files)))))
   \<and> printed (trace (fst (process example_env example_sbatch ''/b'' ''opt'' 1 None True
                       (example_world (example_files running_outcar @ tools_files)))))
     \<noteq> printed (trace (fst (process example_env example_sbatch ''/b'' ''opt'' 1 None False
                       (example_world (example_files running_outcar @ tools_files)))))"
  by code_simp

section \<open>Two runs in succession\<close>





































end
